theory Spec2Isabelle
  imports Main "HOL-Library.Word"
begin

unbundle bit_operations_syntax

section \<open>Go's \<open>net\<close> and \<open>encoding/binary\<close>, as far as the validators use them\<close>

text \<open>
  The validators of \<^verbatim>\<open>pkg/netadmit/validators.go\<close> call \<^verbatim>\<open>net.ParseCIDR\<close>,
  \<^verbatim>\<open>net.ParseIP\<close>, \<^verbatim>\<open>(*IPNet).Contains\<close>, \<^verbatim>\<open>IP.To4\<close>, \<^verbatim>\<open>IP.String\<close> and
  \<^verbatim>\<open>binary.BigEndian\<close>. They are standard library, not code of the repository; they
  are embedded here after the textual parser of Go's \<^verbatim>\<open>net\<close> package
  (\<^verbatim>\<open>parse.go\<close>, \<^verbatim>\<open>ip.go\<close>) as it stood when the validators were written: decimal
  octets may carry leading zeros, and \<^verbatim>\<open>ParseIP\<close> takes no zone.

  A Go string is a sequence of bytes and so is an Isabelle \<^typ>\<open>string\<close>; \<^verbatim>\<open>len\<close> is
  \<^const>\<open>length\<close>. A \<^verbatim>\<open>net.IP\<close> is a byte slice; the \<^verbatim>\<open>nil\<close> slice is the empty list.
\<close>

type_synonym byte = "8 word"
type_synonym uint32 = "32 word"
type_synonym IP = "byte list"
type_synonym IPMask = "byte list"

record IPNet =
  IP :: IP
  Mask :: IPMask

definition IPv4len :: nat where
  "IPv4len = 4"

definition IPv6len :: nat where
  "IPv6len = 16"

definition big :: int where
  "big = 0xFFFFFF"

definition v4InV6Prefix :: "byte list" where
  "v4InV6Prefix = [0, 0, 0, 0, 0, 0, 0, 0, 0, 0, 0xff, 0xff]"

definition IPv4 :: "byte \<Rightarrow> byte \<Rightarrow> byte \<Rightarrow> byte \<Rightarrow> IP" where
  "IPv4 a b c d = v4InV6Prefix @ [a, b, c, d]"

definition byte_of_char :: "char \<Rightarrow> int" where
  "byte_of_char c = int (of_char c)"

text \<open>
  \<^verbatim>\<open>dtoi\<close>: decimal to integer. Returns the number, the characters consumed and
  success. The loop variable \<open>i\<close> counts the characters read; the first argument is
  \<^verbatim>\<open>s[i:]\<close>.
\<close>

fun dtoi_loop :: "string \<Rightarrow> int \<Rightarrow> nat \<Rightarrow> int \<times> nat \<times> bool" where
  "dtoi_loop [] n i = (if i = 0 then (0, 0, False) else (n, i, True))"
| "dtoi_loop (c # cs) n i =
     (if byte_of_char CHR ''0'' \<le> byte_of_char c \<and> byte_of_char c \<le> byte_of_char CHR ''9'' then
        (let n' = n * 10 + (byte_of_char c - byte_of_char CHR ''0'')
         in if n' \<ge> big then (big, i, False) else dtoi_loop cs n' (i + 1))
      else if i = 0 then (0, 0, False) else (n, i, True))"

definition dtoi :: "string \<Rightarrow> int \<times> nat \<times> bool" where
  "dtoi s = dtoi_loop s 0 0"

text \<open>\<^verbatim>\<open>xtoi\<close>: hexadecimal to integer, same result triple.\<close>

fun xtoi_loop :: "string \<Rightarrow> int \<Rightarrow> nat \<Rightarrow> int \<times> nat \<times> bool" where
  "xtoi_loop [] n i = (if i = 0 then (0, i, False) else (n, i, True))"
| "xtoi_loop (c # cs) n i =
     (let k = byte_of_char c in
      if byte_of_char CHR ''0'' \<le> k \<and> k \<le> byte_of_char CHR ''9'' then
        (let n' = n * 16 + (k - byte_of_char CHR ''0'')
         in if n' \<ge> big then (0, i, False) else xtoi_loop cs n' (i + 1))
      else if byte_of_char CHR ''a'' \<le> k \<and> k \<le> byte_of_char CHR ''f'' then
        (let n' = n * 16 + (k - byte_of_char CHR ''a'') + 10
         in if n' \<ge> big then (0, i, False) else xtoi_loop cs n' (i + 1))
      else if byte_of_char CHR ''A'' \<le> k \<and> k \<le> byte_of_char CHR ''F'' then
        (let n' = n * 16 + (k - byte_of_char CHR ''A'') + 10
         in if n' \<ge> big then (0, i, False) else xtoi_loop cs n' (i + 1))
      else if i = 0 then (0, i, False) else (n, i, True))"

definition xtoi :: "string \<Rightarrow> int \<times> nat \<times> bool" where
  "xtoi s = xtoi_loop s 0 0"

text \<open>
  \<^verbatim>\<open>parseIPv4\<close>: four decimal octets separated by dots; \<^verbatim>\<open>nil\<close> on any failure,
  otherwise the 16-byte IPv4-in-IPv6 form built by \<^verbatim>\<open>IPv4\<close>. The loop runs over
  \<open>i = 0..3\<close> with the unread string and the array \<open>p\<close>; \<open>None\<close> is the early
  \<^verbatim>\<open>return nil\<close>.
\<close>

function parseIPv4_loop :: "nat \<Rightarrow> string \<Rightarrow> byte list \<Rightarrow> (string \<times> byte list) option" where
  "parseIPv4_loop i s p =
     (if i < IPv4len then
        (if length s = 0 then None
         else if i > 0 \<and> hd s \<noteq> CHR ''.'' then None
         else
           (let s1 = (if i > 0 then tl s else s) in
            case dtoi s1 of (n, c, ok) \<Rightarrow>
              if \<not> ok \<or> n > 0xFF then None
              else parseIPv4_loop (i + 1) (drop c s1) (p[i := word_of_int n])))
      else Some (s, p))"
  by pat_completeness auto
termination
  by (relation "measure (\<lambda>(i, s, p). IPv4len - i)") (auto simp: IPv4len_def)

declare parseIPv4_loop.simps [simp del]

definition parseIPv4 :: "string \<Rightarrow> IP" where
  "parseIPv4 s =
     (case parseIPv4_loop 0 s [0, 0, 0, 0] of
        None \<Rightarrow> []
      | Some (s', p) \<Rightarrow>
          if length s' \<noteq> 0 then [] else IPv4 (p ! 0) (p ! 1) (p ! 2) (p ! 3))"

text \<open>
  \<^verbatim>\<open>parseIPv6\<close>: hexadecimal groups separated by colons, at most one \<^verbatim>\<open>::\<close>
  (the ellipsis, whose position in \<open>ip\<close> is kept, \<open>-1\<close> when there is none) and an
  optional trailing dotted IPv4 address. The loop returns the unread string, the
  number of bytes written, the ellipsis and the array; \<open>None\<close> is \<^verbatim>\<open>return nil\<close>.
\<close>

function parseIPv6_loop :: "string \<Rightarrow> nat \<Rightarrow> int \<Rightarrow> byte list \<Rightarrow> (string \<times> nat \<times> int \<times> byte list) option" where
  "parseIPv6_loop s i ellipsis ip =
     (if i < IPv6len then
        (case xtoi s of (n, c, ok) \<Rightarrow>
           if \<not> ok \<or> n > 0xFFFF then None
           else if c < length s \<and> s ! c = CHR ''.'' then
             (if ellipsis < 0 \<and> i \<noteq> IPv6len - IPv4len then None
              else if i + IPv4len > IPv6len then None
              else
                (let ip4 = parseIPv4 s in
                 if ip4 = [] then None
                 else Some ([], i + IPv4len, ellipsis,
                        ip[i := ip4 ! 12, i + 1 := ip4 ! 13, i + 2 := ip4 ! 14, i + 3 := ip4 ! 15])))
           else
             (let ip' = ip[i := word_of_int (drop_bit 8 n), i + 1 := word_of_int n];
                  i' = i + 2;
                  s1 = drop c s
              in
                if length s1 = 0 then Some (s1, i', ellipsis, ip')
                else if hd s1 \<noteq> CHR '':'' \<or> length s1 = 1 then None
                else
                  (let s2 = tl s1 in
                   if hd s2 = CHR '':'' then
                     (if ellipsis \<ge> 0 then None
                      else
                        (let s3 = tl s2 in
                         if length s3 = 0 then Some (s3, i', int i', ip')
                         else parseIPv6_loop s3 i' (int i') ip'))
                   else parseIPv6_loop s2 i' ellipsis ip')))
      else Some (s, i, ellipsis, ip))"
  by pat_completeness auto
termination
  by (relation "measure (\<lambda>(s, i, ellipsis, ip). IPv6len - i)") (auto simp: IPv6len_def)

declare parseIPv6_loop.simps [simp del]

text \<open>
  Expanding the ellipsis: the bytes written after it move to the end of the array
  (\<^verbatim>\<open>for j := i - 1; j >= ellipsis; j--\<close>) and the gap is zeroed.
\<close>

definition expandEllipsis :: "nat \<Rightarrow> nat \<Rightarrow> byte list \<Rightarrow> byte list" where
  "expandEllipsis i ellipsis ip =
     (let n = IPv6len - i;
          moved = foldl (\<lambda>a j. a[j + n := a ! j]) ip (rev [ellipsis..<i])
      in foldl (\<lambda>a j. a[j := 0]) moved (rev [ellipsis..<ellipsis + n]))"

definition parseIPv6_rest :: "string \<Rightarrow> int \<Rightarrow> byte list \<Rightarrow> IP" where
  "parseIPv6_rest s ellipsis ip =
     (case parseIPv6_loop s 0 ellipsis ip of
        None \<Rightarrow> []
      | Some (s', i, ellipsis', ip') \<Rightarrow>
          if length s' \<noteq> 0 then []
          else if i < IPv6len then
            (if ellipsis' < 0 then [] else expandEllipsis i (nat ellipsis') ip')
          else if ellipsis' \<ge> 0 then []
          else ip')"

definition parseIPv6 :: "string \<Rightarrow> IP" where
  "parseIPv6 s =
     (let ip = replicate IPv6len 0 in
      if length s \<ge> 2 \<and> s ! 0 = CHR '':'' \<and> s ! 1 = CHR '':'' then
        (let s' = drop 2 s in
         if length s' = 0 then ip else parseIPv6_rest s' 0 ip)
      else parseIPv6_rest s (- 1) ip)"

text \<open>
  \<^verbatim>\<open>ParseIP\<close>: the first dot or colon of the string decides which parser reads the
  whole string; a string with neither is not an address.
\<close>

fun ParseIP_scan :: "string \<Rightarrow> string \<Rightarrow> IP" where
  "ParseIP_scan [] s = []"
| "ParseIP_scan (c # cs) s =
     (if c = CHR ''.'' then parseIPv4 s
      else if c = CHR '':'' then parseIPv6 s
      else ParseIP_scan cs s)"

definition ParseIP :: "string \<Rightarrow> IP" where
  "ParseIP s = ParseIP_scan s s"

text \<open>\<^verbatim>\<open>CIDRMask\<close>: \<open>ones\<close> leading one bits in a mask of \<open>bits\<close> bits.\<close>

fun CIDRMask_fill :: "nat \<Rightarrow> nat \<Rightarrow> byte list" where
  "CIDRMask_fill 0 n = []"
| "CIDRMask_fill (Suc l) n =
     (if n \<ge> 8 then 0xff # CIDRMask_fill l (n - 8)
      else NOT (drop_bit n (0xff :: byte)) # CIDRMask_fill l 0)"

definition CIDRMask :: "int \<Rightarrow> int \<Rightarrow> IPMask" where
  "CIDRMask ones bits =
     (if bits \<noteq> 8 * int IPv4len \<and> bits \<noteq> 8 * int IPv6len then []
      else if ones < 0 \<or> ones > bits then []
      else CIDRMask_fill (nat bits div 8) (nat ones))"

definition allFF :: "byte list \<Rightarrow> bool" where
  "allFF b = list_all (\<lambda>c. c = 0xff) b"

definition isZeros :: "byte list \<Rightarrow> bool" where
  "isZeros p = list_all (\<lambda>c. c = 0) p"

text \<open>\<^verbatim>\<open>func (ip IP) Mask(mask IPMask) IP\<close>\<close>

definition IP_Mask :: "IP \<Rightarrow> IPMask \<Rightarrow> IP" where
  "IP_Mask ip msk =
     (let mask1 = (if length msk = IPv6len \<and> length ip = IPv4len \<and> allFF (take 12 msk)
                   then drop 12 msk else msk);
          ip1 = (if length mask1 = IPv4len \<and> length ip = IPv6len \<and> take 12 ip = v4InV6Prefix
                 then drop 12 ip else ip)
      in if length ip1 \<noteq> length mask1 then [] else map2 (AND) ip1 mask1)"

text \<open>\<^verbatim>\<open>func (ip IP) To4() IP\<close>\<close>

definition To4 :: "IP \<Rightarrow> IP" where
  "To4 ip =
     (if length ip = IPv4len then ip
      else if length ip = IPv6len \<and> isZeros (take 10 ip) \<and> ip ! 10 = 0xff \<and> ip ! 11 = 0xff
        then take 4 (drop 12 ip)
      else [])"

text \<open>
  \<^verbatim>\<open>IndexByteString\<close>: the index of the first occurrence of the byte, \<open>-1\<close> when
  there is none.
\<close>

fun IndexByteString :: "string \<Rightarrow> char \<Rightarrow> int" where
  "IndexByteString [] c = - 1"
| "IndexByteString (x # xs) c =
     (if x = c then 0
      else (let i = IndexByteString xs c in if i < 0 then - 1 else i + 1))"

text \<open>
  \<^verbatim>\<open>ParseCIDR\<close> returns the address and the network (\<open>None\<close> is the
  \<^verbatim>\<open>ParseError\<close>). A dotted address yields a 4-byte network and mask, any other
  a 16-byte network and mask.
\<close>

definition ParseCIDR :: "string \<Rightarrow> (IP \<times> IPNet) option" where
  "ParseCIDR s =
     (let i = IndexByteString s CHR ''/'' in
      if i < 0 then None
      else
        (let addr = take (nat i) s;
             msk = drop (nat i + 1) s;
             ip4 = parseIPv4 addr;
             iplen = (if ip4 = [] then IPv6len else IPv4len);
             ip = (if ip4 = [] then parseIPv6 addr else ip4)
         in case dtoi msk of (n, j, ok) \<Rightarrow>
              if ip = [] \<or> \<not> ok \<or> j \<noteq> length msk \<or> n < 0 \<or> n > 8 * int iplen then None
              else
                (let m = CIDRMask n (8 * int iplen)
                 in Some (ip, \<lparr>IP = IP_Mask ip m, Mask = m\<rparr>))))"

text \<open>\<^verbatim>\<open>networkNumberAndMask\<close> and \<^verbatim>\<open>func (n *IPNet) Contains(ip IP) bool\<close>\<close>

definition networkNumberAndMask :: "IPNet \<Rightarrow> IP \<times> IPMask" where
  "networkNumberAndMask n =
     (let ip = (if To4 (IP n) = [] then IP n else To4 (IP n)) in
      if To4 (IP n) = [] \<and> length ip \<noteq> IPv6len then ([], [])
      else if length (Mask n) = IPv4len then
        (if length ip \<noteq> IPv4len then ([], []) else (ip, Mask n))
      else if length (Mask n) = IPv6len then
        (if length ip = IPv4len then (ip, drop 12 (Mask n)) else (ip, Mask n))
      else ([], []))"

definition Contains :: "IPNet \<Rightarrow> IP \<Rightarrow> bool" where
  "Contains n ip =
     (case networkNumberAndMask n of (nn, m) \<Rightarrow>
        (let ip1 = (if To4 ip \<noteq> [] then To4 ip else ip);
             l = length ip1
         in if l \<noteq> length nn then False
            else list_all (\<lambda>i. nn ! i AND m ! i = ip1 ! i AND m ! i) [0..<l]))"

text \<open>
  \<^verbatim>\<open>binary.BigEndian.Uint32\<close> and \<^verbatim>\<open>PutUint32\<close>. Both start with the bounds check
  \<^verbatim>\<open>_ = b[3]\<close>: on a slice shorter than four bytes they panic (\<open>None\<close>).
\<close>

definition Uint32 :: "byte list \<Rightarrow> uint32 option" where
  "Uint32 b =
     (if length b < 4 then None
      else Some (ucast (b ! 3) OR push_bit 8 (ucast (b ! 2)) OR push_bit 16 (ucast (b ! 1))
                 OR push_bit 24 (ucast (b ! 0))))"

definition PutUint32 :: "byte list \<Rightarrow> uint32 \<Rightarrow> byte list option" where
  "PutUint32 b v =
     (if length b < 4 then None
      else Some (b[0 := ucast (drop_bit 24 v), 1 := ucast (drop_bit 16 v),
                   2 := ucast (drop_bit 8 v), 3 := ucast v]))"

text \<open>
  \<^verbatim>\<open>uitoa\<close> and \<^verbatim>\<open>IP.String\<close>. The validators call \<^verbatim>\<open>String\<close> only on the result of
  \<^verbatim>\<open>ipam.Int2ip\<close>, a 4-byte address, for which it prints dotted decimal; that branch
  is the one embedded, and \<open>IP_String\<close> is left unspecified on other lengths.
\<close>

fun uitoa :: "nat \<Rightarrow> string" where
  "uitoa val =
     (if val < 10 then [char_of (48 + val)]
      else uitoa (val div 10) @ [char_of (48 + val mod 10)])"

declare uitoa.simps [simp del]

fun IP_String :: "IP \<Rightarrow> string" where
  "IP_String [a, b, c, d] =
     uitoa (unat a) @ ''.'' @ uitoa (unat b) @ ''.'' @ uitoa (unat c) @ ''.'' @ uitoa (unat d)"

section \<open>The address conversions of package \<open>ipam\<close>\<close>

text \<open>
  Modelled from the spec: package \<^verbatim>\<open>ipam\<close> (\<^verbatim>\<open>ipam.Ip2int\<close>, \<^verbatim>\<open>ipam.Int2ip\<close>) is not
  among the sources. The spec calls the pair a pure library, \<^emph>\<open>ip-to-int\<close> and
  \<^emph>\<open>int-to-ip\<close>, the conversions between an address and its number, and uses them for
  "network-address + 1", "broadcast-address - 1" and "numerically \<open>\<le>\<close>". \<open>Ip2int\<close>
  reads the four address bytes of an IPv4 address as a big-endian 32-bit number (the
  last four bytes of the 16-byte form, which is what \<^verbatim>\<open>net.ParseIP\<close> returns), and
  \<open>Int2ip\<close> writes a number back as a 4-byte address. Reading fewer than four bytes
  panics, as \<^verbatim>\<open>binary.BigEndian.Uint32\<close> does.
\<close>

definition Ip2int :: "IP \<Rightarrow> uint32 option" where
  "Ip2int ip = (if length ip = 16 then Uint32 (drop 12 ip) else Uint32 ip)"

definition Int2ip :: "uint32 \<Rightarrow> IP" where
  "Int2ip nn =
     [ucast (drop_bit 24 nn), ucast (drop_bit 16 nn), ucast (drop_bit 8 nn), ucast nn]"

section \<open>The manifest\<close>

text \<open>
  Modelled from the spec: the type declarations of \<^verbatim>\<open>danmtypes.DanmNet\<close> and of
  \<^verbatim>\<open>admissionv1.Operation\<close> are not among the sources. The records hold the fields
  the validators read, under the names the validators use
  (\<^verbatim>\<open>newManifest.Spec.Options.Pool.Start\<close>), with the types of the spec's data model: a
  routes mapping is a Go map, \<^verbatim>\<open>nil\<close> when the manifest has none, and is given by its
  entries (destination, gateway) in the order the \<^verbatim>\<open>range\<close> loop visits them, which Go
  leaves open; \<open>AllowedTenants\<close> is a slice that may be \<^verbatim>\<open>nil\<close>; the tags are Go
  \<^verbatim>\<open>int\<close>s, which the validators only compare.
\<close>

type_synonym routes = "(string \<times> string) list option"

record IpPool =
  Start :: string
  End :: string

record DanmNetOption =
  Device :: string
  Vxlan :: int
  Vlan :: int
  Cidr :: string
  Routes :: routes
  Pool :: IpPool
  Alloc :: string
  Net6 :: string
  Routes6 :: routes

record DanmNetSpec =
  NetworkID :: string
  AllowedTenants :: "string list option"
  Options :: DanmNetOption

record DanmNet =
  Spec :: DanmNetSpec

datatype Operation = Create | Update | Delete | Connect

section \<open>The validators\<close>

text \<open>
  Every \<^verbatim>\<open>errors.New\<close> of the file is a constructor of \<open>error\<close>, named after the
  spec's error categories and carrying the values its message is built from;
  \<open>Error_message\<close> is the message.
\<close>

datatype error =
    RoutesWithoutCidrError
  | InvalidCidrError string
  | GatewayOutsideCidrError string string
  | AllocPresetOnCreateError
  | PoolWithoutCidrError
  | InvalidCidrParameterError string
  | PoolOutsideCidrError
  | PoolInvertedError string string
  | VlanVxlanConflictError
  | MissingNetworkIdError
  | NetworkIdTooLongError
  | AllowedTenantsNotPermittedError
  | ManualDeviceOrTagOnCreateError
  | ManualDeviceOrTagOnUpdateError

fun Error_message :: "error \<Rightarrow> string" where
  "Error_message RoutesWithoutCidrError = ''IP routes cannot be defined for a L2 network''"
| "Error_message (InvalidCidrError cidr) = ''Invalid CIDR: '' @ cidr"
| "Error_message (GatewayOutsideCidrError gw cidr) =
     ''Specified GW address:'' @ gw @ '' is not part of CIDR:'' @ cidr"
| "Error_message AllocPresetOnCreateError =
     ''Allocation bitmask shall not be manually defined upon creation!''"
| "Error_message PoolWithoutCidrError = ''Allocation pool cannot be defined without CIDR!''"
| "Error_message (InvalidCidrParameterError cidr) = ''Invalid CIDR parameter: '' @ cidr"
| "Error_message PoolOutsideCidrError = ''Allocation pool is outside of defined CIDR''"
| "Error_message (PoolInvertedError pstart pend) =
     ''Allocation pool start:'' @ pstart @ '' is bigger than or equal to allocation pool end:'' @ pend"
| "Error_message VlanVxlanConflictError =
     ''VLAN ID and VxLAN ID parameters are mutually exclusive''"
| "Error_message MissingNetworkIdError = ''Spec.NetworkID mandatory parameter is missing!''"
| "Error_message NetworkIdTooLongError =
     ''Spec.NetworkID cannot be longer than 12 characters (otherwise VLAN and VxLAN host interface creation might fail)!''"
| "Error_message AllowedTenantsNotPermittedError =
     ''AllowedTenants attribute is only valid for the ClusterNetwork API!''"
| "Error_message ManualDeviceOrTagOnCreateError =
     ''Manually configuring any one of host_device, vlan, or vxlan attributes is not allowed for TenantNetworks!''"
| "Error_message ManualDeviceOrTagOnUpdateError =
     ''Manually changing any one of host_device, vlan, or vxlan attributes is not allowed for TenantNetworks!''"

text \<open>
  A validator returns \<^verbatim>\<open>nil\<close> (\<open>Ok\<close>) or an error (\<open>Err\<close>), or it does not return
  at all because a slice access or a \<^verbatim>\<open>nil\<close> dereference panics (\<open>Panic\<close>).

  \<^verbatim>\<open>type Validator func(oldManifest, newManifest *danmtypes.DanmNet, opType
  admissionv1.Operation) error\<close>: the previous manifest is a pointer that may be
  \<^verbatim>\<open>nil\<close>; the candidate manifest is always there (every validator reads it first).
  The only assignments in the file are the two to the candidate's \<^verbatim>\<open>Pool.Start\<close>
  and \<^verbatim>\<open>Pool.End\<close> in \<^verbatim>\<open>validateAllocationPool\<close>, so a validator returns its
  outcome together with the candidate manifest as the call leaves it, also when it
  panics. The validators that assign nothing are functions to the outcome alone, and
  \<open>readonly\<close> gives them the common type for the rule lists.
\<close>

datatype outcome = Ok | Err error | Panic

type_synonym Validator = "DanmNet option \<Rightarrow> DanmNet \<Rightarrow> Operation \<Rightarrow> outcome \<times> DanmNet"

type_synonym ValidatorMapping = "Validator list"

definition readonly :: "(DanmNet option \<Rightarrow> DanmNet \<Rightarrow> Operation \<Rightarrow> outcome) \<Rightarrow> Validator" where
  "readonly v oldManifest newManifest opType = (v oldManifest newManifest opType, newManifest)"

definition MaxNidLength :: nat where
  "MaxNidLength = 12"

text \<open>The loop \<^verbatim>\<open>for _, gw := range routes\<close> of \<^verbatim>\<open>validateIpFields\<close>.\<close>

fun validateIpFields_range :: "string \<Rightarrow> IPNet \<Rightarrow> (string \<times> string) list \<Rightarrow> outcome" where
  "validateIpFields_range cidr ipnet [] = Ok"
| "validateIpFields_range cidr ipnet ((dst, gw) # rest) =
     (if \<not> Contains ipnet (ParseIP gw) then Err (GatewayOutsideCidrError gw cidr)
      else validateIpFields_range cidr ipnet rest)"

text \<open>
  What the \<^verbatim>\<open>range\<close> loop runs over: no entry for a \<^verbatim>\<open>nil\<close> map; and the values
  it binds to \<^verbatim>\<open>gw\<close>, the route gateways.
\<close>

definition routeEntries :: "routes \<Rightarrow> (string \<times> string) list" where
  "routeEntries routes = (case routes of None \<Rightarrow> [] | Some entries \<Rightarrow> entries)"

definition routeGateways :: "routes \<Rightarrow> string list" where
  "routeGateways routes = map snd (routeEntries routes)"

definition validateIpFields :: "string \<Rightarrow> routes \<Rightarrow> outcome" where
  "validateIpFields cidr routes =
     (if cidr = [] then
        (if routes \<noteq> None then Err RoutesWithoutCidrError else Ok)
      else
        (case ParseCIDR cidr of
           None \<Rightarrow> Err (InvalidCidrError cidr)
         | Some (ip, ipnet) \<Rightarrow>
             validateIpFields_range cidr ipnet (routeEntries routes)))"

definition validateIpv4Fields :: "DanmNet option \<Rightarrow> DanmNet \<Rightarrow> Operation \<Rightarrow> outcome" where
  "validateIpv4Fields oldManifest newManifest opType =
     validateIpFields (Cidr (Options (Spec newManifest))) (Routes (Options (Spec newManifest)))"

definition validateIpv6Fields :: "DanmNet option \<Rightarrow> DanmNet \<Rightarrow> Operation \<Rightarrow> outcome" where
  "validateIpv6Fields oldManifest newManifest opType =
     validateIpFields (Net6 (Options (Spec newManifest))) (Routes6 (Options (Spec newManifest)))"

text \<open>
  \<^verbatim>\<open>GetBroadcastAddress\<close>: the two \<^verbatim>\<open>Uint32\<close> reads are evaluated before
  \<^verbatim>\<open>PutUint32\<close> writes into the fresh slice of \<^verbatim>\<open>len(subnet.IP.To4())\<close> bytes.
\<close>

definition GetBroadcastAddress :: "IPNet \<Rightarrow> IP option" where
  "GetBroadcastAddress subnet =
     (let ip = replicate (length (To4 (IP subnet))) 0 in
      case Uint32 (To4 (IP subnet)) of
        None \<Rightarrow> None
      | Some a \<Rightarrow>
          (case Uint32 (To4 (Mask subnet)) of
             None \<Rightarrow> None
           | Some b \<Rightarrow> PutUint32 ip (a OR NOT b)))"

text \<open>The two assignments of \<^verbatim>\<open>validateAllocationPool\<close>.\<close>

definition setPoolStart :: "string \<Rightarrow> DanmNet \<Rightarrow> DanmNet" where
  "setPoolStart v m =
     m\<lparr>Spec := (Spec m)\<lparr>Options := (Options (Spec m))\<lparr>Pool :=
       (Pool (Options (Spec m)))\<lparr>Start := v\<rparr>\<rparr>\<rparr>\<rparr>"

definition setPoolEnd :: "string \<Rightarrow> DanmNet \<Rightarrow> DanmNet" where
  "setPoolEnd v m =
     m\<lparr>Spec := (Spec m)\<lparr>Options := (Options (Spec m))\<lparr>Pool :=
       (Pool (Options (Spec m)))\<lparr>End := v\<rparr>\<rparr>\<rparr>\<rparr>"

text \<open>
  The right-hand sides of the two assignments: \<open>None\<close> when evaluating them panics.
\<close>

definition poolStartDefault :: "IPNet \<Rightarrow> string option" where
  "poolStartDefault ipnet =
     (case Ip2int (IP ipnet) of
        None \<Rightarrow> None
      | Some n \<Rightarrow> Some (IP_String (Int2ip (n + 1))))"

definition poolEndDefault :: "IPNet \<Rightarrow> string option" where
  "poolEndDefault ipnet =
     (case GetBroadcastAddress ipnet of
        None \<Rightarrow> None
      | Some bc \<Rightarrow>
          (case Ip2int bc of
             None \<Rightarrow> None
           | Some n \<Rightarrow> Some (IP_String (Int2ip (n - 1)))))"

text \<open>
  The checks after the defaulting (the last two \<^verbatim>\<open>if\<close> statements of
  \<^verbatim>\<open>validateAllocationPool\<close>), on the manifest that holds the defaulted bounds.
\<close>

definition validateAllocationPool_check :: "IPNet \<Rightarrow> DanmNet \<Rightarrow> outcome" where
  "validateAllocationPool_check ipnet m =
     (let pstart = Start (Pool (Options (Spec m)));
          pend = End (Pool (Options (Spec m)))
      in
        if \<not> Contains ipnet (ParseIP pstart) \<or> \<not> Contains ipnet (ParseIP pend) then
          Err PoolOutsideCidrError
        else
          (case Ip2int (ParseIP pend) of
             None \<Rightarrow> Panic
           | Some e \<Rightarrow>
               (case Ip2int (ParseIP pstart) of
                  None \<Rightarrow> Panic
                | Some s \<Rightarrow> if e \<le> s then Err (PoolInvertedError pstart pend) else Ok)))"

definition validateAllocationPool :: Validator where
  "validateAllocationPool oldManifest newManifest opType =
     (if opType = Create \<and> Alloc (Options (Spec newManifest)) \<noteq> [] then
        (Err AllocPresetOnCreateError, newManifest)
      else
        (let cidr = Cidr (Options (Spec newManifest)) in
         if cidr = [] then
           (if Start (Pool (Options (Spec newManifest))) \<noteq> []
               \<or> End (Pool (Options (Spec newManifest))) \<noteq> [] then
              (Err PoolWithoutCidrError, newManifest)
            else (Ok, newManifest))
         else
           (case ParseCIDR cidr of
              None \<Rightarrow> (Err (InvalidCidrParameterError cidr), newManifest)
            | Some (ip, ipnet) \<Rightarrow>
                (case (if Start (Pool (Options (Spec newManifest))) = [] then
                         map_option (\<lambda>v. setPoolStart v newManifest) (poolStartDefault ipnet)
                       else Some newManifest) of
                   None \<Rightarrow> (Panic, newManifest)
                 | Some m1 \<Rightarrow>
                     (case (if End (Pool (Options (Spec m1))) = [] then
                              map_option (\<lambda>v. setPoolEnd v m1) (poolEndDefault ipnet)
                            else Some m1) of
                        None \<Rightarrow> (Panic, m1)
                      | Some m2 \<Rightarrow> (validateAllocationPool_check ipnet m2, m2))))))"

definition validateVids :: "DanmNet option \<Rightarrow> DanmNet \<Rightarrow> Operation \<Rightarrow> outcome" where
  "validateVids oldManifest newManifest opType =
     (let isVlanDefined = (Vlan (Options (Spec newManifest)) \<noteq> 0);
          isVxlanDefined = (Vxlan (Options (Spec newManifest)) \<noteq> 0)
      in if isVlanDefined \<and> isVxlanDefined then Err VlanVxlanConflictError else Ok)"

definition validateNetworkId :: "DanmNet option \<Rightarrow> DanmNet \<Rightarrow> Operation \<Rightarrow> outcome" where
  "validateNetworkId oldManifest newManifest opType =
     (if NetworkID (Spec newManifest) = [] then Err MissingNetworkIdError
      else if length (NetworkID (Spec newManifest)) > MaxNidLength then Err NetworkIdTooLongError
      else Ok)"

definition validateAbsenceOfAllowedTenants :: "DanmNet option \<Rightarrow> DanmNet \<Rightarrow> Operation \<Rightarrow> outcome" where
  "validateAbsenceOfAllowedTenants oldManifest newManifest opType =
     (if AllowedTenants (Spec newManifest) \<noteq> None then Err AllowedTenantsNotPermittedError
      else Ok)"

text \<open>
  \<^verbatim>\<open>validateTenantNetRules\<close> reads the previous manifest only when the operation is
  Update (\<^verbatim>\<open>&&\<close> does not evaluate its right operand otherwise); there a \<^verbatim>\<open>nil\<close>
  previous manifest is a \<^verbatim>\<open>nil\<close> dereference.
\<close>

definition validateTenantNetRules :: "DanmNet option \<Rightarrow> DanmNet \<Rightarrow> Operation \<Rightarrow> outcome" where
  "validateTenantNetRules oldManifest newManifest opType =
     (if opType = Create \<and>
         (Device (Options (Spec newManifest)) \<noteq> [] \<or>
          Vxlan (Options (Spec newManifest)) \<noteq> 0 \<or>
          Vlan (Options (Spec newManifest)) \<noteq> 0) then
        Err ManualDeviceOrTagOnCreateError
      else if opType = Update then
        (case oldManifest of
           None \<Rightarrow> Panic
         | Some old \<Rightarrow>
             if Device (Options (Spec newManifest)) \<noteq> Device (Options (Spec old)) \<or>
                Vxlan (Options (Spec newManifest)) \<noteq> Vxlan (Options (Spec old)) \<or>
                Vlan (Options (Spec newManifest)) \<noteq> Vlan (Options (Spec old)) then
               Err ManualDeviceOrTagOnUpdateError
             else Ok)
      else Ok)"

subsection \<open>The rule registry\<close>

definition DanmNetMapping :: ValidatorMapping where
  "DanmNetMapping =
     [readonly validateIpv4Fields, readonly validateIpv6Fields, validateAllocationPool,
      readonly validateVids, readonly validateNetworkId,
      readonly validateAbsenceOfAllowedTenants]"

definition ClusterNetMapping :: ValidatorMapping where
  "ClusterNetMapping =
     [readonly validateIpv4Fields, readonly validateIpv6Fields, validateAllocationPool,
      readonly validateVids, readonly validateNetworkId]"

definition TenantNetMapping :: ValidatorMapping where
  "TenantNetMapping =
     [readonly validateIpv4Fields, readonly validateIpv6Fields, validateAllocationPool,
      readonly validateNetworkId, readonly validateAbsenceOfAllowedTenants,
      readonly validateTenantNetRules]"

definition danmValidationConfig :: "string \<rightharpoonup> ValidatorMapping" where
  "danmValidationConfig =
     [''DanmNet'' \<mapsto> DanmNetMapping,
      ''ClusterNetwork'' \<mapsto> ClusterNetMapping,
      ''TenantNetwork'' \<mapsto> TenantNetMapping]"

text \<open>
  Modelled from the spec: the caller that runs a rule list (the webhook transport) is
  not among the sources. By the spec it "invokes each rule in order against (old
  manifest or none, new manifest, operation kind), and aggregates/reports the first
  non-nil error", every rule seeing the same candidate manifest object; a manifest
  is accepted when no rule of its kind's list reports an error. \<open>runRules\<close> is the
  first-failure reading: it stops at the first outcome that is not \<open>Ok\<close>, and
  \<open>runAllRules\<close> is the collect-all reading, which runs every rule until one panics
  and returns the outcomes in order.
\<close>

fun runRules :: "ValidatorMapping \<Rightarrow> DanmNet option \<Rightarrow> DanmNet \<Rightarrow> Operation \<Rightarrow> outcome \<times> DanmNet" where
  "runRules [] oldManifest newManifest opType = (Ok, newManifest)"
| "runRules (v # vs) oldManifest newManifest opType =
     (case v oldManifest newManifest opType of
        (Ok, m) \<Rightarrow> runRules vs oldManifest m opType
      | (r, m) \<Rightarrow> (r, m))"

fun runAllRules :: "ValidatorMapping \<Rightarrow> DanmNet option \<Rightarrow> DanmNet \<Rightarrow> Operation \<Rightarrow> outcome list \<times> DanmNet" where
  "runAllRules [] oldManifest newManifest opType = ([], newManifest)"
| "runAllRules (v # vs) oldManifest newManifest opType =
     (case v oldManifest newManifest opType of
        (Panic, m) \<Rightarrow> ([Panic], m)
      | (r, m) \<Rightarrow>
          (case runAllRules vs oldManifest m opType of (rs, m') \<Rightarrow> (r # rs, m')))"

section \<open>Example manifests\<close>

text \<open>
  The manifests at which the theorems below are evaluated. \<open>l2Net\<close> is a layer-2
  network with a network id and nothing else; the others differ from it in the
  options named.
\<close>

definition l2Net :: DanmNet where
  "l2Net =
     \<lparr>Spec = \<lparr>NetworkID = ''net1'', AllowedTenants = None,
        Options = \<lparr>Device = [], Vxlan = 0, Vlan = 0, Cidr = [], Routes = None,
          Pool = \<lparr>Start = [], End = []\<rparr>, Alloc = [], Net6 = [], Routes6 = None\<rparr>\<rparr>\<rparr>"

definition withOptions :: "(DanmNetOption \<Rightarrow> DanmNetOption) \<Rightarrow> DanmNet \<Rightarrow> DanmNet" where
  "withOptions f m = m\<lparr>Spec := (Spec m)\<lparr>Options := f (Options (Spec m))\<rparr>\<rparr>"

definition withPool :: "string \<Rightarrow> string \<Rightarrow> string \<Rightarrow> DanmNet" where
  "withPool cidr pstart pend =
     withOptions (\<lambda>opts. opts\<lparr>Cidr := cidr, Pool := \<lparr>Start = pstart, End = pend\<rparr>\<rparr>) l2Net"

definition emptyRoutesNet :: DanmNet where
  "emptyRoutesNet = withOptions (\<lambda>opts. opts\<lparr>Routes := Some [], Routes6 := Some []\<rparr>) l2Net"

definition l2RoutesNet :: DanmNet where
  "l2RoutesNet =
     withOptions (\<lambda>opts. opts\<lparr>Routes := Some [(''10.20.0.0/24'', ''10.0.0.1'')],
       Routes6 := Some [(''fd20::/64'', ''fd00::1'')]\<rparr>) l2Net"

definition allocPresetNet :: DanmNet where
  "allocPresetNet = withOptions (\<lambda>opts. opts\<lparr>Alloc := ''gAAAAA==''\<rparr>) (withPool ''10.0.0.0/24'' [] [])"

definition allocPresetL2Net :: DanmNet where
  "allocPresetL2Net = withOptions (\<lambda>opts. opts\<lparr>Alloc := ''gAAAAA==''\<rparr>) (withPool [] ''10.0.0.1'' [])"

definition taggedNet :: DanmNet where
  "taggedNet = withOptions (\<lambda>opts. opts\<lparr>Vlan := 5, Vxlan := 7\<rparr>) l2Net"

definition deviceNet :: "string \<Rightarrow> DanmNet" where
  "deviceNet dev = withOptions (\<lambda>opts. opts\<lparr>Device := dev\<rparr>) l2Net"

definition namedNet :: "string \<Rightarrow> DanmNet" where
  "namedNet nid = l2Net\<lparr>Spec := (Spec l2Net)\<lparr>NetworkID := nid\<rparr>\<rparr>"

text \<open>
  The network id rule measures an id with \<^verbatim>\<open>len\<close>, the number of bytes. The number of
  characters of a UTF-8 string, for comparison, is the number of its bytes that are not
  continuation bytes (\<^verbatim>\<open>10xxxxxx\<close>). \<open>accentedId\<close> is seven times the letter e with
  an acute accent (U+00E9, the bytes C3 A9).
\<close>

definition utf8_characters :: "string \<Rightarrow> nat" where
  "utf8_characters s = length (filter (\<lambda>c. (of_char c :: nat) div 64 \<noteq> 2) s)"

definition accentedId :: string where
  "accentedId =
     [CHR 0xC3, CHR 0xA9, CHR 0xC3, CHR 0xA9, CHR 0xC3, CHR 0xA9, CHR 0xC3, CHR 0xA9,
      CHR 0xC3, CHR 0xA9, CHR 0xC3, CHR 0xA9, CHR 0xC3, CHR 0xA9]"

section \<open>The frame of the rules\<close>

text \<open>
  \<open>onlyPoolDefaulted m m'\<close>: the manifest \<open>m'\<close> is \<open>m\<close> but for its two pool bounds
  (putting the bounds of \<open>m\<close> back into \<open>m'\<close> gives \<open>m\<close>), and a bound
  differs only where it was empty in \<open>m\<close> and the CIDR of \<open>m\<close> is non-empty and
  parses.
\<close>

definition onlyPoolDefaulted :: "DanmNet \<Rightarrow> DanmNet \<Rightarrow> bool" where
  "onlyPoolDefaulted m m' \<longleftrightarrow>
     setPoolEnd (End (Pool (Options (Spec m)))) (setPoolStart (Start (Pool (Options (Spec m)))) m') = m
     \<and> (Start (Pool (Options (Spec m'))) \<noteq> Start (Pool (Options (Spec m))) \<longrightarrow>
          Start (Pool (Options (Spec m))) = [] \<and> Cidr (Options (Spec m)) \<noteq> []
          \<and> ParseCIDR (Cidr (Options (Spec m))) \<noteq> None)
     \<and> (End (Pool (Options (Spec m'))) \<noteq> End (Pool (Options (Spec m))) \<longrightarrow>
          End (Pool (Options (Spec m))) = [] \<and> Cidr (Options (Spec m)) \<noteq> []
          \<and> ParseCIDR (Cidr (Options (Spec m))) \<noteq> None)"

lemmas ex_defs = l2Net_def withOptions_def withPool_def emptyRoutesNet_def l2RoutesNet_def
  allocPresetNet_def allocPresetL2Net_def taggedNet_def deviceNet_def namedNet_def

section \<open>Facts about the address library\<close>

text \<open>
  What the parsers return has a fixed shape: \<^verbatim>\<open>ParseIP\<close> returns \<^verbatim>\<open>nil\<close> or sixteen
  bytes, and the network of \<^verbatim>\<open>ParseCIDR\<close> has a 4-byte address and mask or a 16-byte
  address and mask.
\<close>

lemma length_IPv4: "length (IPv4 a b c d) = 16"
  by (simp add: IPv4_def v4InV6Prefix_def)

lemma parseIPv4_length: "parseIPv4 s = [] \<or> length (parseIPv4 s) = 16"
  by (simp add: parseIPv4_def length_IPv4 split: option.splits prod.splits)

lemma take12_parseIPv4: "parseIPv4 s \<noteq> [] \<Longrightarrow> take 12 (parseIPv4 s) = v4InV6Prefix"
  by (simp add: parseIPv4_def IPv4_def v4InV6Prefix_def split: option.splits prod.splits if_splits)

lemma parseIPv6_loop_length:
  "parseIPv6_loop s i e ip = Some r \<Longrightarrow> length (snd (snd (snd r))) = length ip"
proof (induction "IPv6len - i" arbitrary: s i e ip rule: less_induct)
  case less
  have IH: "\<And>s' j e' ip'. parseIPv6_loop s' j e' ip' = Some r \<Longrightarrow> IPv6len - j < IPv6len - i
      \<Longrightarrow> length (snd (snd (snd r))) = length ip'"
    using less.hyps by blast
  from less.prems show ?case
    apply (subst (asm) parseIPv6_loop.simps)
    apply (auto simp: Let_def IPv6len_def IPv4len_def split: if_splits prod.splits dest!: IH)
    done
qed

lemma length_foldl_move:
  "length (foldl (\<lambda>a j. a[j + n := a ! j]) ip js) = length ip"
  by (induction js arbitrary: ip) auto

lemma length_foldl_zero:
  "length (foldl (\<lambda>a j. a[j := (0::byte)]) ip js) = length ip"
  by (induction js arbitrary: ip) auto

lemma expandEllipsis_length: "length (expandEllipsis i e ip) = length ip"
  by (simp add: expandEllipsis_def Let_def length_foldl_move length_foldl_zero)

lemma parseIPv6_rest_length:
  "length ip = 16 \<Longrightarrow> parseIPv6_rest s e ip = [] \<or> length (parseIPv6_rest s e ip) = 16"
  by (auto simp: parseIPv6_rest_def expandEllipsis_length split: option.splits prod.splits dest: parseIPv6_loop_length)

lemma parseIPv6_length: "parseIPv6 s = [] \<or> length (parseIPv6 s) = 16"
  using parseIPv6_rest_length[of "replicate IPv6len 0"]
  by (auto simp: parseIPv6_def Let_def IPv6len_def)

lemma ParseIP_scan_length: "ParseIP_scan cs s = [] \<or> length (ParseIP_scan cs s) = 16"
  using parseIPv4_length parseIPv6_length by (induction cs) auto

lemma ParseIP_length: "ParseIP s = [] \<or> length (ParseIP s) = 16"
  by (simp add: ParseIP_def ParseIP_scan_length)

lemma length_CIDRMask_fill: "length (CIDRMask_fill l n) = l"
  by (induction l arbitrary: n) auto

lemma length_CIDRMask:
  "0 \<le> ones \<Longrightarrow> ones \<le> bits \<Longrightarrow> bits = 32 \<or> bits = 128 \<Longrightarrow> length (CIDRMask ones bits) = nat bits div 8"
  by (auto simp: CIDRMask_def length_CIDRMask_fill IPv4len_def IPv6len_def)

lemma IP_Mask_v4:
  "length ip = 16 \<Longrightarrow> take 12 ip = v4InV6Prefix \<Longrightarrow> length m = 4 \<Longrightarrow> length (IP_Mask ip m) = 4"
  by (simp add: IP_Mask_def Let_def IPv4len_def IPv6len_def)

lemma IP_Mask_v6:
  "length ip = 16 \<Longrightarrow> length m = 16 \<Longrightarrow> length (IP_Mask ip m) = 16"
  by (simp add: IP_Mask_def Let_def IPv4len_def IPv6len_def)

lemma ParseCIDR_lengths:
  assumes "ParseCIDR s = Some (ip, n)"
  shows "(length (IP n) = 4 \<and> length (Mask n) = 4) \<or> (length (IP n) = 16 \<and> length (Mask n) = 16)"
proof -
  define addr where "addr = take (nat (IndexByteString s CHR ''/'')) s"
  define msk where "msk = drop (nat (IndexByteString s CHR ''/'') + 1) s"
  obtain k j ok where d: "dtoi msk = (k, j, ok)" by (cases "dtoi msk") auto
  show ?thesis
  proof (cases "parseIPv4 addr = []")
    case True
    with assms d have m: "0 \<le> k" "k \<le> 128" "Mask n = CIDRMask k 128" "parseIPv6 addr \<noteq> []"
        "IP n = IP_Mask (parseIPv6 addr) (CIDRMask k 128)"
      by (auto simp: ParseCIDR_def Let_def addr_def msk_def IPv6len_def IPv4len_def split: if_splits)
    have "length (parseIPv6 addr) = 16" using m(4) parseIPv6_length[of addr] by simp
    moreover have "length (CIDRMask k 128) = 16" using m(1,2) by (simp add: length_CIDRMask)
    ultimately show ?thesis using m(3,5) by (simp add: IP_Mask_v6)
  next
    case False
    with assms d have m: "0 \<le> k" "k \<le> 32" "Mask n = CIDRMask k 32"
        "IP n = IP_Mask (parseIPv4 addr) (CIDRMask k 32)"
      by (auto simp: ParseCIDR_def Let_def addr_def msk_def IPv6len_def IPv4len_def split: if_splits)
    have "length (parseIPv4 addr) = 16" using False parseIPv4_length[of addr] by simp
    moreover have "length (CIDRMask k 32) = 4" using m(1,2) by (simp add: length_CIDRMask)
    ultimately show ?thesis using m(3,4) False by (simp add: IP_Mask_v4 take12_parseIPv4)
  qed
qed

lemma To4_nil: "To4 [] = []"
  by (simp add: To4_def IPv4len_def IPv6len_def)

lemma To4_len4: "length ip = 4 \<Longrightarrow> To4 ip = ip"
  by (simp add: To4_def IPv4len_def)

lemma To4_length: "To4 ip = [] \<or> length (To4 ip) = 4"
  by (auto simp: To4_def IPv4len_def IPv6len_def)

lemma Contains_nil:
  assumes "(length (IP n) = 4 \<and> length (Mask n) = 4) \<or> (length (IP n) = 16 \<and> length (Mask n) = 16)"
  shows "\<not> Contains n []"
  using assms To4_length[of "IP n"]
  by (auto simp: Contains_def networkNumberAndMask_def Let_def To4_nil To4_len4 IPv4len_def IPv6len_def)

lemma ParseCIDR_not_Contains_nil: "ParseCIDR s = Some (ip, n) \<Longrightarrow> \<not> Contains n []"
  using ParseCIDR_lengths Contains_nil by blast

text \<open>
  \<^verbatim>\<open>Contains\<close> indexes the network number, the mask and the address up to the length
  of the address, which it has checked against the network number's. On a network
  from \<^verbatim>\<open>ParseCIDR\<close> the mask is as long as the network number, so every index is in
  range and \<^verbatim>\<open>Contains\<close> cannot panic.
\<close>

lemma networkNumberAndMask_lengths:
  assumes "ParseCIDR s = Some (ip, n)"
  shows "length (fst (networkNumberAndMask n)) = length (snd (networkNumberAndMask n))
     \<and> fst (networkNumberAndMask n) \<noteq> []"
  using ParseCIDR_lengths [OF assms] To4_length [of "IP n"]
  by (auto simp: networkNumberAndMask_def Let_def To4_len4 IPv4len_def IPv6len_def)

lemma Uint32_Some: "4 \<le> length b \<Longrightarrow> \<exists>v. Uint32 b = Some v"
  by (simp add: Uint32_def)

lemma Ip2int_ParseIP: "ParseIP s \<noteq> [] \<Longrightarrow> \<exists>v. Ip2int (ParseIP s) = Some v"
  using ParseIP_length[of s] by (auto simp: Ip2int_def Uint32_def)

lemma IP_String_Int2ip_nonempty: "IP_String (Int2ip v) \<noteq> []"
  by (simp add: Int2ip_def)

lemma CIDRMask_fill_zero: "CIDRMask_fill l 0 = replicate l 0"
  by (induction l) auto

lemma To4_CIDRMask_128: "0 \<le> k \<Longrightarrow> k \<le> 128 \<Longrightarrow> To4 (CIDRMask k 128) = []"
proof -
  assume k: "0 \<le> k" "k \<le> 128"
  have f: "CIDRMask k 128 = CIDRMask_fill 16 (nat k)"
    using k by (simp add: CIDRMask_def IPv4len_def IPv6len_def)
  show ?thesis
  proof (cases "nat k \<ge> 8")
    case True
    have e: "CIDRMask_fill 16 (nat k) = 0xff # CIDRMask_fill 15 (nat k - 8)"
      using True CIDRMask_fill.simps(2)[of 15 "nat k"] by simp
    show ?thesis unfolding f e
      by (simp add: To4_def IPv4len_def IPv6len_def length_CIDRMask_fill isZeros_def)
  next
    case False
    have e: "CIDRMask_fill 16 (nat k) = NOT (drop_bit (nat k) 0xff) # replicate 15 0"
      using False CIDRMask_fill.simps(2)[of 15 "nat k"] by (simp add: CIDRMask_fill_zero)
    show ?thesis unfolding f e
      by (simp add: To4_def IPv4len_def IPv6len_def isZeros_def)
  qed
qed

section \<open>The IPv4 / IPv6 field rule\<close>

text \<open>
  Claim C1, as the code has it. With an empty CIDR the rule looks only at whether the
  routes mapping is there: it succeeds when the mapping is absent (\<^verbatim>\<open>nil\<close>) and
  fails with \<open>RoutesWithoutCidrError\<close> when it is present, with or without
  entries. This holds for \<open>validateIpFields\<close> and for both rule instances, the pair
  (\<open>Cidr\<close>, \<open>Routes\<close>) and the pair (\<open>Net6\<close>, \<open>Routes6\<close>).
\<close>

theorem validateIpFields_empty_cidr_nil_check:
  "validateIpFields [] routes = (if routes = None then Ok else Err RoutesWithoutCidrError)
   \<and> (Cidr (Options (Spec m)) = [] \<longrightarrow>
        validateIpv4Fields old m op =
          (if Routes (Options (Spec m)) = None then Ok else Err RoutesWithoutCidrError))
   \<and> (Net6 (Options (Spec m)) = [] \<longrightarrow>
        validateIpv6Fields old m op =
          (if Routes6 (Options (Spec m)) = None then Ok else Err RoutesWithoutCidrError))"
  by (simp add: validateIpFields_def validateIpv4Fields_def validateIpv6Fields_def)

text \<open>
  The theorem at a layer-2 manifest without routes, which both instances accept, and
  at one whose two mappings hold a route each, which both reject.
\<close>

theorem validateIpFields_empty_cidr_nil_check_witness:
  "Cidr (Options (Spec l2Net)) = [] \<and> Net6 (Options (Spec l2Net)) = []
   \<and> validateIpv4Fields None l2Net Create = Ok \<and> validateIpv6Fields None l2Net Create = Ok
   \<and> Cidr (Options (Spec l2RoutesNet)) = [] \<and> Net6 (Options (Spec l2RoutesNet)) = []
   \<and> validateIpv4Fields None l2RoutesNet Create = Err RoutesWithoutCidrError
   \<and> validateIpv6Fields None l2RoutesNet Create = Err RoutesWithoutCidrError"
  using validateIpFields_empty_cidr_nil_check [of None l2Net None Create]
        validateIpFields_empty_cidr_nil_check [of None l2RoutesNet None Create]
  by (simp add: ex_defs)

text \<open>
  Claim C1 as stated lets the rule succeed on an empty routes mapping. A mapping that
  is present and empty (\<^verbatim>\<open>routes: {}\<close> in the manifest) is not \<^verbatim>\<open>nil\<close>, and both
  instances reject it.
\<close>

theorem validateIpFields_empty_routes_counterexample:
  "Cidr (Options (Spec emptyRoutesNet)) = [] \<and> Routes (Options (Spec emptyRoutesNet)) = Some []
   \<and> validateIpv4Fields None emptyRoutesNet Create = Err RoutesWithoutCidrError
   \<and> Net6 (Options (Spec emptyRoutesNet)) = [] \<and> Routes6 (Options (Spec emptyRoutesNet)) = Some []
   \<and> validateIpv6Fields None emptyRoutesNet Create = Err RoutesWithoutCidrError"
  by (simp add: ex_defs validateIpFields_def validateIpv4Fields_def validateIpv6Fields_def)

lemma validateIpFields_range_Ok:
  "validateIpFields_range cidr ipnet es = Ok \<longleftrightarrow> (\<forall>gw \<in> set (map snd es). Contains ipnet (ParseIP gw))"
  by (induction es) (auto split: if_splits)

lemma validateIpFields_range_Err:
  "validateIpFields_range cidr ipnet es \<noteq> Ok \<Longrightarrow>
   \<exists>gw \<in> set (map snd es). \<not> Contains ipnet (ParseIP gw)
      \<and> validateIpFields_range cidr ipnet es = Err (GatewayOutsideCidrError gw cidr)"
  by (induction es) (auto split: if_splits)

text \<open>
  Claim C4. For a non-empty CIDR string and any routes mapping, the rule fails with
  \<open>InvalidCidrError\<close> when the CIDR does not parse; when it parses, the rule fails
  with \<open>GatewayOutsideCidrError\<close>, naming a gateway that is outside, if some route
  gateway is not contained in the parsed subnet, and succeeds when every route gateway
  lies inside. The routes are given in any order the loop may visit them. The two
  rule instances are this rule on the pair (\<open>Cidr\<close>, \<open>Routes\<close>) and on the pair
  (\<open>Net6\<close>, \<open>Routes6\<close>).
\<close>

theorem validateIpFields_cidr_gateways:
  assumes "cidr \<noteq> []"
  shows "(ParseCIDR cidr = None \<longrightarrow> validateIpFields cidr routes = Err (InvalidCidrError cidr))
    \<and> (\<forall>ip ipnet. ParseCIDR cidr = Some (ip, ipnet) \<longrightarrow>
          ((\<exists>gw \<in> set (routeGateways routes). \<not> Contains ipnet (ParseIP gw)) \<longrightarrow>
             (\<exists>gw \<in> set (routeGateways routes). \<not> Contains ipnet (ParseIP gw)
                \<and> validateIpFields cidr routes = Err (GatewayOutsideCidrError gw cidr)))
          \<and> ((\<forall>gw \<in> set (routeGateways routes). Contains ipnet (ParseIP gw)) \<longrightarrow>
                validateIpFields cidr routes = Ok))
    \<and> validateIpv4Fields old m op
        = validateIpFields (Cidr (Options (Spec m))) (Routes (Options (Spec m)))
    \<and> validateIpv6Fields old m op
        = validateIpFields (Net6 (Options (Spec m))) (Routes6 (Options (Spec m)))"
proof -
  have inst: "validateIpv4Fields old m op
        = validateIpFields (Cidr (Options (Spec m))) (Routes (Options (Spec m)))"
    "validateIpv6Fields old m op
        = validateIpFields (Net6 (Options (Spec m))) (Routes6 (Options (Spec m)))"
    by (simp_all add: validateIpv4Fields_def validateIpv6Fields_def)
  have "validateIpFields cidr routes = Err (InvalidCidrError cidr)" if "ParseCIDR cidr = None"
    using that assms by (simp add: validateIpFields_def)
  moreover have "\<exists>gw \<in> set (routeGateways routes). \<not> Contains ipnet (ParseIP gw)
      \<and> validateIpFields cidr routes = Err (GatewayOutsideCidrError gw cidr)"
    if "ParseCIDR cidr = Some (ip, ipnet)"
      and "\<exists>gw \<in> set (routeGateways routes). \<not> Contains ipnet (ParseIP gw)" for ip ipnet
  proof -
    have "validateIpFields_range cidr ipnet (routeEntries routes) \<noteq> Ok"
      using that(2) by (simp add: validateIpFields_range_Ok routeGateways_def)
    from validateIpFields_range_Err [OF this] show ?thesis
      using that(1) assms by (simp add: validateIpFields_def routeGateways_def)
  qed
  moreover have "validateIpFields cidr routes = Ok"
    if "ParseCIDR cidr = Some (ip, ipnet)"
      and "\<forall>gw \<in> set (routeGateways routes). Contains ipnet (ParseIP gw)" for ip ipnet
    using that assms by (simp add: validateIpFields_def validateIpFields_range_Ok routeGateways_def)
  ultimately show ?thesis using inst by blast
qed

text \<open>
  The theorem at the subnet 10.0.0.0/24 with a gateway inside, with one outside, and
  at a CIDR whose prefix length is out of range.
\<close>

theorem validateIpFields_cidr_gateways_witness:
  "validateIpFields ''10.0.0.0/24'' (Some [(''10.20.0.0/24'', ''10.0.0.1'')]) = Ok
   \<and> validateIpFields ''10.0.0.0/24'' (Some [(''10.20.0.0/24'', ''10.0.0.1''), (''10.30.0.0/24'', ''10.0.1.1'')])
       = Err (GatewayOutsideCidrError ''10.0.1.1'' ''10.0.0.0/24'')
   \<and> validateIpFields ''10.0.0.0/33'' None = Err (InvalidCidrError ''10.0.0.0/33'')"
proof -
  let ?n = "\<lparr>IP = [10, 0, 0, 0], Mask = [255, 255, 255, 0]\<rparr>"
  have p: "ParseCIDR ''10.0.0.0/24'' = Some (IPv4 10 0 0 0, ?n)" by code_simp
  have q: "ParseCIDR ''10.0.0.0/33'' = None" by code_simp
  have c1: "Contains ?n (ParseIP ''10.0.0.1'')" by code_simp
  have c2: "\<not> Contains ?n (ParseIP ''10.0.1.1'')" by code_simp
  have "validateIpFields ''10.0.0.0/24'' (Some [(''10.20.0.0/24'', ''10.0.0.1'')]) = Ok"
    using validateIpFields_cidr_gateways [of "''10.0.0.0/24''" "Some [(''10.20.0.0/24'', ''10.0.0.1'')]"] p c1
    by (simp add: routeGateways_def routeEntries_def)
  moreover have "validateIpFields ''10.0.0.0/24''
      (Some [(''10.20.0.0/24'', ''10.0.0.1''), (''10.30.0.0/24'', ''10.0.1.1'')])
       = Err (GatewayOutsideCidrError ''10.0.1.1'' ''10.0.0.0/24'')"
    using validateIpFields_cidr_gateways [of "''10.0.0.0/24''"
        "Some [(''10.20.0.0/24'', ''10.0.0.1''), (''10.30.0.0/24'', ''10.0.1.1'')]"] p c1 c2
    by (simp add: routeGateways_def routeEntries_def)
  moreover have "validateIpFields ''10.0.0.0/33'' None = Err (InvalidCidrError ''10.0.0.0/33'')"
    using validateIpFields_cidr_gateways [of "''10.0.0.0/33''" None] q by simp
  ultimately show ?thesis by blast
qed

section \<open>The tenant-restriction rule\<close>

text \<open>
  Claim C6. On Create the rule fails with \<open>ManualDeviceOrTagOnCreateError\<close> exactly
  when the device is non-empty or one of the tags is nonzero; on Update, given the
  previous manifest, it fails with \<open>ManualDeviceOrTagOnUpdateError\<close> exactly when the
  device or one of the tags differs from the previous manifest's; otherwise, and on
  the other operations, it succeeds.
\<close>

theorem validateTenantNetRules_contract:
  "validateTenantNetRules old m Create =
     (if Device (Options (Spec m)) \<noteq> [] \<or> Vlan (Options (Spec m)) \<noteq> 0 \<or> Vxlan (Options (Spec m)) \<noteq> 0
      then Err ManualDeviceOrTagOnCreateError else Ok)
   \<and> validateTenantNetRules (Some prev) m Update =
     (if Device (Options (Spec m)) \<noteq> Device (Options (Spec prev))
         \<or> Vlan (Options (Spec m)) \<noteq> Vlan (Options (Spec prev))
         \<or> Vxlan (Options (Spec m)) \<noteq> Vxlan (Options (Spec prev))
      then Err ManualDeviceOrTagOnUpdateError else Ok)
   \<and> validateTenantNetRules old m Delete = Ok
   \<and> validateTenantNetRules old m Connect = Ok"
  by (auto simp: validateTenantNetRules_def)

theorem validateTenantNetRules_contract_witness:
  "validateTenantNetRules (Some (deviceNet ''eth0'')) (deviceNet ''eth1'') Update
     = Err ManualDeviceOrTagOnUpdateError
   \<and> validateTenantNetRules (Some (deviceNet ''eth0'')) (deviceNet ''eth0'') Update = Ok
   \<and> validateTenantNetRules None (deviceNet ''eth0'') Create = Err ManualDeviceOrTagOnCreateError
   \<and> validateTenantNetRules None taggedNet Create = Err ManualDeviceOrTagOnCreateError
   \<and> validateTenantNetRules None l2Net Create = Ok"
  using validateTenantNetRules_contract [of None "deviceNet ''eth0''" "deviceNet ''eth0''"]
        validateTenantNetRules_contract [of None "deviceNet ''eth1''" "deviceNet ''eth0''"]
        validateTenantNetRules_contract [of None taggedNet l2Net]
        validateTenantNetRules_contract [of None l2Net l2Net]
  by (simp add: ex_defs)

section \<open>The network identifier rule\<close>

text \<open>
  Claim C9, as the code has it. The rule fails with \<open>MissingNetworkIdError\<close> exactly
  when the network id is empty, with \<open>NetworkIdTooLongError\<close> exactly when its length
  in bytes (Go's \<^verbatim>\<open>len\<close>) exceeds 12, and succeeds on every non-empty id of at most
  12 bytes; an id of exactly 12 bytes succeeds and one of 13 bytes fails.
\<close>

theorem validateNetworkId_contract:
  "(validateNetworkId old m op = Err MissingNetworkIdError \<longleftrightarrow> NetworkID (Spec m) = [])
   \<and> (validateNetworkId old m op = Err NetworkIdTooLongError \<longleftrightarrow> length (NetworkID (Spec m)) > 12)
   \<and> (validateNetworkId old m op = Ok \<longleftrightarrow>
        NetworkID (Spec m) \<noteq> [] \<and> length (NetworkID (Spec m)) \<le> 12)
   \<and> (length (NetworkID (Spec m)) = 12 \<longrightarrow> validateNetworkId old m op = Ok)
   \<and> (length (NetworkID (Spec m)) = 13 \<longrightarrow> validateNetworkId old m op = Err NetworkIdTooLongError)"
  by (auto simp: validateNetworkId_def MaxNidLength_def)

theorem validateNetworkId_contract_witness:
  "length (NetworkID (Spec (namedNet ''external-net''))) = 12
   \<and> validateNetworkId None (namedNet ''external-net'') Create = Ok
   \<and> length (NetworkID (Spec (namedNet ''external-net1''))) = 13
   \<and> validateNetworkId None (namedNet ''external-net1'') Create = Err NetworkIdTooLongError
   \<and> validateNetworkId None (namedNet []) Create = Err MissingNetworkIdError"
  using validateNetworkId_contract [of None "namedNet ''external-net''" Create]
        validateNetworkId_contract [of None "namedNet ''external-net1''" Create]
        validateNetworkId_contract [of None "namedNet []" Create]
  by (simp add: ex_defs)

text \<open>
  Claim C9 as stated bounds the id by 12 characters. An id of seven accented letters
  has seven characters and fourteen bytes, and the rule rejects it as too long.
\<close>

theorem validateNetworkId_characters_counterexample:
  "NetworkID (Spec (namedNet accentedId)) \<noteq> []
   \<and> utf8_characters (NetworkID (Spec (namedNet accentedId))) = 7
   \<and> length (NetworkID (Spec (namedNet accentedId))) = 14
   \<and> validateNetworkId None (namedNet accentedId) Create = Err NetworkIdTooLongError"
  by (simp add: validateNetworkId_def namedNet_def accentedId_def MaxNidLength_def utf8_characters_def)

section \<open>The allocation pool rule\<close>

text \<open>What the two assignments leave of the fields the rule reads.\<close>

lemma setPoolStart_simps [simp]:
  "Start (Pool (Options (Spec (setPoolStart v m)))) = v"
  "End (Pool (Options (Spec (setPoolStart v m)))) = End (Pool (Options (Spec m)))"
  "Cidr (Options (Spec (setPoolStart v m))) = Cidr (Options (Spec m))"
  "Alloc (Options (Spec (setPoolStart v m))) = Alloc (Options (Spec m))"
  by (simp_all add: setPoolStart_def)

lemma setPoolEnd_simps [simp]:
  "Start (Pool (Options (Spec (setPoolEnd v m)))) = Start (Pool (Options (Spec m)))"
  "End (Pool (Options (Spec (setPoolEnd v m)))) = v"
  "Cidr (Options (Spec (setPoolEnd v m))) = Cidr (Options (Spec m))"
  "Alloc (Options (Spec (setPoolEnd v m))) = Alloc (Options (Spec m))"
  by (simp_all add: setPoolEnd_def)

text \<open>A defaulted bound is a dotted address, never the empty string.\<close>

lemma poolStartDefault_nonempty: "poolStartDefault ipnet = Some v \<Longrightarrow> v \<noteq> []"
  by (auto simp: poolStartDefault_def IP_String_Int2ip_nonempty split: option.splits)

lemma poolEndDefault_nonempty: "poolEndDefault ipnet = Some v \<Longrightarrow> v \<noteq> []"
  by (auto simp: poolEndDefault_def IP_String_Int2ip_nonempty split: option.splits)

text \<open>The rule past its first three returns: the CIDR parsed to \<open>ipnet\<close>.\<close>

lemma validateAllocationPool_parsed:
  assumes "\<not> (op = Create \<and> Alloc (Options (Spec m)) \<noteq> [])"
    and "Cidr (Options (Spec m)) \<noteq> []"
    and "ParseCIDR (Cidr (Options (Spec m))) = Some (ip, ipnet)"
  shows "validateAllocationPool old m op =
     (case (if Start (Pool (Options (Spec m))) = [] then
              map_option (\<lambda>v. setPoolStart v m) (poolStartDefault ipnet)
            else Some m) of
        None \<Rightarrow> (Panic, m)
      | Some m1 \<Rightarrow>
          (case (if End (Pool (Options (Spec m1))) = [] then
                   map_option (\<lambda>v. setPoolEnd v m1) (poolEndDefault ipnet)
                 else Some m1) of
             None \<Rightarrow> (Panic, m1)
           | Some m2 \<Rightarrow> (validateAllocationPool_check ipnet m2, m2)))"
  using assms by (auto simp: validateAllocationPool_def Let_def)

text \<open>
  The two conversions are inverse on 32-bit numbers, and \<open>GetBroadcastAddress\<close>
  returns on a 4-byte network and panics on every other network \<^verbatim>\<open>ParseCIDR\<close> gives,
  the IPv4-in-IPv6 ones included: a 16-byte mask has no 4-byte form.
\<close>

lemma Uint32_Int2ip: "Uint32 (Int2ip v) = Some v"
proof -
  let ?w = "(ucast (ucast v :: byte) OR push_bit 8 (ucast (ucast (drop_bit 8 v) :: byte))
      OR push_bit 16 (ucast (ucast (drop_bit 16 v) :: byte))
      OR push_bit 24 (ucast (ucast (drop_bit 24 v) :: byte))) :: uint32"
  have "?w = v"
  proof (rule bit_word_eqI)
    fix n assume "n < LENGTH(32)"
    then show "bit ?w n = bit v n"
      by (cases "n < 8"; cases "n < 16"; cases "n < 24") (auto simp: bit_simps)
  qed
  then show ?thesis by (simp add: Uint32_def Int2ip_def)
qed

lemma Ip2int_Int2ip: "Ip2int (Int2ip v) = Some v"
  using Uint32_Int2ip [of v] by (simp add: Ip2int_def Int2ip_def)

lemma PutUint32_len4: "length b = 4 \<Longrightarrow> PutUint32 b v = Some (Int2ip v)"
  by (auto simp: PutUint32_def Int2ip_def numeral_eq_Suc length_Suc_conv)

lemma GetBroadcastAddress_v4:
  assumes "length (IP ipnet) = 4" "length (Mask ipnet) = 4"
  shows "\<exists>a b. Uint32 (IP ipnet) = Some a \<and> Uint32 (Mask ipnet) = Some b
      \<and> GetBroadcastAddress ipnet = Some (Int2ip (a OR NOT b))"
proof -
  obtain a where a: "Uint32 (IP ipnet) = Some a" using Uint32_Some [of "IP ipnet"] assms by auto
  obtain b where b: "Uint32 (Mask ipnet) = Some b" using Uint32_Some [of "Mask ipnet"] assms by auto
  show ?thesis using assms a b
    by (simp add: GetBroadcastAddress_def To4_len4 PutUint32_len4)
qed

lemma GetBroadcastAddress_v6:
  assumes "ParseCIDR s = Some (ip, ipnet)" "length (IP ipnet) \<noteq> 4"
  shows "GetBroadcastAddress ipnet = None"
proof -
  define addr where "addr = take (nat (IndexByteString s CHR ''/'')) s"
  define msk where "msk = drop (nat (IndexByteString s CHR ''/'') + 1) s"
  obtain k j ok where d: "dtoi msk = (k, j, ok)" by (cases "dtoi msk") auto
  have v6: "parseIPv4 addr = []"
  proof (rule ccontr)
    assume False: "parseIPv4 addr \<noteq> []"
    with assms(1) d have m: "0 \<le> k" "k \<le> 32"
        "IP ipnet = IP_Mask (parseIPv4 addr) (CIDRMask k 32)"
      by (auto simp: ParseCIDR_def Let_def addr_def msk_def IPv6len_def IPv4len_def split: if_splits)
    have "length (parseIPv4 addr) = 16" using False parseIPv4_length[of addr] by simp
    moreover have "length (CIDRMask k 32) = 4" using m(1,2) by (simp add: length_CIDRMask)
    ultimately have "length (IP ipnet) = 4" using m(3) False by (simp add: IP_Mask_v4 take12_parseIPv4)
    with assms(2) show False by simp
  qed
  with assms(1) d have m: "0 \<le> k" "k \<le> 128" "Mask ipnet = CIDRMask k 128"
    by (auto simp: ParseCIDR_def Let_def addr_def msk_def IPv6len_def IPv4len_def split: if_splits)
  have "To4 (Mask ipnet) = []" using m by (simp add: To4_CIDRMask_128)
  then show ?thesis
    by (simp add: GetBroadcastAddress_def Uint32_def split: option.splits)
qed


text \<open>
  On a network from \<^verbatim>\<open>ParseCIDR\<close>, the start default is always computed, the end
  default exactly on the 4-byte networks, and the checks after the defaulting return.
\<close>

lemma ParseCIDR_v4_lengths:
  "ParseCIDR s = Some (ip, ipnet) \<Longrightarrow> length (IP ipnet) = 4 \<Longrightarrow> length (Mask ipnet) = 4"
  using ParseCIDR_lengths by fastforce

lemma Ip2int_Some: "length ip = 4 \<or> length ip = 16 \<Longrightarrow> \<exists>v. Ip2int ip = Some v"
  by (auto simp: Ip2int_def Uint32_def)

lemma poolStartDefault_parsed:
  assumes "ParseCIDR s = Some (ip, ipnet)"
  shows "\<exists>net. Ip2int (IP ipnet) = Some net
     \<and> poolStartDefault ipnet = Some (IP_String (Int2ip (net + 1)))"
proof -
  from ParseCIDR_lengths [OF assms] obtain net where "Ip2int (IP ipnet) = Some net"
    using Ip2int_Some [of "IP ipnet"] by blast
  then show ?thesis by (simp add: poolStartDefault_def)
qed

lemma poolEndDefault_v4:
  assumes "length (IP ipnet) = 4" "length (Mask ipnet) = 4"
  shows "\<exists>net msk. Uint32 (IP ipnet) = Some net \<and> Uint32 (Mask ipnet) = Some msk
     \<and> poolEndDefault ipnet = Some (IP_String (Int2ip ((net OR NOT msk) - 1)))"
  using GetBroadcastAddress_v4 [OF assms] by (auto simp: poolEndDefault_def Ip2int_Int2ip)

lemma poolEndDefault_v6:
  assumes "ParseCIDR s = Some (ip, ipnet)" "length (IP ipnet) \<noteq> 4"
  shows "poolEndDefault ipnet = None"
  using GetBroadcastAddress_v6 [OF assms] by (simp add: poolEndDefault_def)

lemma validateAllocationPool_check_no_Panic:
  assumes "ParseCIDR s = Some (ip, ipnet)"
  shows "validateAllocationPool_check ipnet m \<noteq> Panic"
proof (cases "Contains ipnet (ParseIP (Start (Pool (Options (Spec m)))))
    \<and> Contains ipnet (ParseIP (End (Pool (Options (Spec m)))))")
  case True
  then have "ParseIP (Start (Pool (Options (Spec m)))) \<noteq> []" "ParseIP (End (Pool (Options (Spec m)))) \<noteq> []"
    using ParseCIDR_not_Contains_nil [OF assms] by auto
  then obtain s e where "Ip2int (ParseIP (Start (Pool (Options (Spec m))))) = Some s"
      "Ip2int (ParseIP (End (Pool (Options (Spec m))))) = Some e"
    using Ip2int_ParseIP by blast
  then show ?thesis using True by (simp add: validateAllocationPool_check_def Let_def)
next
  case False
  then show ?thesis by (auto simp: validateAllocationPool_check_def Let_def)
qed

text \<open>
  Past the alloc check and with a CIDR that parses, the rule panics exactly when it has
  to default the end bound of a network that is not a 4-byte one.
\<close>

lemma validateAllocationPool_Panic_iff:
  assumes "\<not> (op = Create \<and> Alloc (Options (Spec m)) \<noteq> [])"
    and "Cidr (Options (Spec m)) \<noteq> []"
    and "ParseCIDR (Cidr (Options (Spec m))) = Some (ip, ipnet)"
  shows "fst (validateAllocationPool old m op) = Panic
     \<longleftrightarrow> End (Pool (Options (Spec m))) = [] \<and> length (IP ipnet) \<noteq> IPv4len"
proof -
  obtain net where s: "poolStartDefault ipnet = Some (IP_String (Int2ip (net + 1)))"
    using poolStartDefault_parsed [OF assms(3)] by blast
  note chk = validateAllocationPool_check_no_Panic [OF assms(3)]
  show ?thesis
  proof (cases "length (IP ipnet) = 4")
    case True
    then obtain v where e: "poolEndDefault ipnet = Some v"
      using poolEndDefault_v4 [of ipnet] ParseCIDR_v4_lengths [OF assms(3)] by blast
    show ?thesis
      unfolding validateAllocationPool_parsed [OF assms, of old]
      using True chk by (simp add: s e IPv4len_def)
  next
    case False
    have e: "poolEndDefault ipnet = None" using poolEndDefault_v6 [OF assms(3) False] .
    show ?thesis
      unfolding validateAllocationPool_parsed [OF assms, of old]
      using False chk by (simp add: s e IPv4len_def)
  qed
qed

text \<open>
  Claim C2, as the code has it. When the rule gets past the alloc check and the CIDR
  parses as an IPv4 CIDR (a dotted address, so a 4-byte network), an empty
  \<open>Pool.Start\<close> is defaulted to the network address plus 1 and an empty \<open>Pool.End\<close>
  to the broadcast address minus 1, the broadcast address being the bitwise OR of the
  network address with the complement of the mask (all three as 32-bit numbers); a
  bound that is set is left as it is. For CIDR 10.0.0.0/24 with both bounds empty the
  defaulted start is 10.0.0.1 and the defaulted end is 10.0.0.254.
\<close>

theorem validateAllocationPool_defaults_ipv4:
  assumes "\<not> (op = Create \<and> Alloc (Options (Spec m)) \<noteq> [])"
    and "Cidr (Options (Spec m)) \<noteq> []"
    and "ParseCIDR (Cidr (Options (Spec m))) = Some (ip, ipnet)"
    and "length (IP ipnet) = IPv4len"
  shows "(\<exists>net msk. Uint32 (IP ipnet) = Some net \<and> Uint32 (Mask ipnet) = Some msk
      \<and> Start (Pool (Options (Spec (snd (validateAllocationPool old m op))))) =
          (if Start (Pool (Options (Spec m))) = [] then IP_String (Int2ip (net + 1))
           else Start (Pool (Options (Spec m))))
      \<and> End (Pool (Options (Spec (snd (validateAllocationPool old m op))))) =
          (if End (Pool (Options (Spec m))) = [] then IP_String (Int2ip ((net OR NOT msk) - 1))
           else End (Pool (Options (Spec m)))))
    \<and> snd (validateAllocationPool None (withPool ''10.0.0.0/24'' [] []) Create)
        = withPool ''10.0.0.0/24'' ''10.0.0.1'' ''10.0.0.254''"
proof -
  have l: "length (IP ipnet) = 4" "length (Mask ipnet) = 4"
    using assms(4) ParseCIDR_v4_lengths [OF assms(3)] by (simp_all add: IPv4len_def)
  obtain net msk where nm: "Uint32 (IP ipnet) = Some net" "Uint32 (Mask ipnet) = Some msk"
      "poolEndDefault ipnet = Some (IP_String (Int2ip ((net OR NOT msk) - 1)))"
    using poolEndDefault_v4 [OF l] by blast
  have s: "poolStartDefault ipnet = Some (IP_String (Int2ip (net + 1)))"
    using l nm(1) by (simp add: poolStartDefault_def Ip2int_def)
  have "Start (Pool (Options (Spec (snd (validateAllocationPool old m op))))) =
          (if Start (Pool (Options (Spec m))) = [] then IP_String (Int2ip (net + 1))
           else Start (Pool (Options (Spec m))))"
    unfolding validateAllocationPool_parsed [OF assms(1-3), of old]
    by (simp add: s nm(3))
  moreover have "End (Pool (Options (Spec (snd (validateAllocationPool old m op))))) =
          (if End (Pool (Options (Spec m))) = [] then IP_String (Int2ip ((net OR NOT msk) - 1))
           else End (Pool (Options (Spec m))))"
    unfolding validateAllocationPool_parsed [OF assms(1-3), of old]
    by (simp add: s nm(3))
  moreover have "snd (validateAllocationPool None (withPool ''10.0.0.0/24'' [] []) Create)
        = withPool ''10.0.0.0/24'' ''10.0.0.1'' ''10.0.0.254''"
    by code_simp
  ultimately show ?thesis using nm(1,2) by blast
qed

text \<open>The theorem's hypotheses and its general part at the spec's example.\<close>

theorem validateAllocationPool_defaults_ipv4_witness:
  "\<not> (Create = Create \<and> Alloc (Options (Spec (withPool ''10.0.0.0/24'' [] []))) \<noteq> [])
   \<and> Cidr (Options (Spec (withPool ''10.0.0.0/24'' [] []))) \<noteq> []
   \<and> ParseCIDR (Cidr (Options (Spec (withPool ''10.0.0.0/24'' [] []))))
       = Some (IPv4 10 0 0 0, \<lparr>IP = [10, 0, 0, 0], Mask = [255, 255, 255, 0]\<rparr>)
   \<and> length (IP \<lparr>IP = [10, 0, 0, 0], Mask = [255, 255, 255, 0]\<rparr>) = IPv4len
   \<and> Start (Pool (Options (Spec (snd (validateAllocationPool None (withPool ''10.0.0.0/24'' [] []) Create)))))
       = ''10.0.0.1''
   \<and> End (Pool (Options (Spec (snd (validateAllocationPool None (withPool ''10.0.0.0/24'' [] []) Create)))))
       = ''10.0.0.254''"
proof -
  let ?m = "withPool ''10.0.0.0/24'' [] []"
  let ?n = "\<lparr>IP = [10, 0, 0, 0], Mask = [255, 255, 255, 0]\<rparr>"
  have h1: "\<not> (Create = Create \<and> Alloc (Options (Spec ?m)) \<noteq> [])" by (simp add: ex_defs)
  have h2: "Cidr (Options (Spec ?m)) \<noteq> []" by (simp add: ex_defs)
  have h3: "ParseCIDR (Cidr (Options (Spec ?m))) = Some (IPv4 10 0 0 0, ?n)" by code_simp
  have h4: "length (IP ?n) = IPv4len" by (simp add: IPv4len_def)
  have u: "Uint32 [10, 0, 0, 0] = Some 0x0A000000" "Uint32 [255, 255, 255, 0] = Some 0xFFFFFF00"
    by (simp_all add: Uint32_def)
  have v: "IP_String (Int2ip (0x0A000000 + 1)) = ''10.0.0.1''"
      "IP_String (Int2ip ((0x0A000000 OR NOT 0xFFFFFF00) - 1)) = ''10.0.0.254''"
    by code_simp+
  have e: "Start (Pool (Options (Spec ?m))) = []" "End (Pool (Options (Spec ?m))) = []"
    by (simp_all add: ex_defs)
  from validateAllocationPool_defaults_ipv4 [OF h1 h2 h3 h4, of None]
  have "Start (Pool (Options (Spec (snd (validateAllocationPool None ?m Create))))) = ''10.0.0.1''
      \<and> End (Pool (Options (Spec (snd (validateAllocationPool None ?m Create))))) = ''10.0.0.254''"
    using u v e by auto
  then show ?thesis using h1 h2 h3 h4 by blast
qed

text \<open>
  Claim C2 as stated, for every CIDR that is set and parses, fails twice. A CIDR with
  an IPv6 address parses, and defaulting the end bound of its network panics in
  \<open>GetBroadcastAddress\<close>: the end bound stays empty. And on Create with the alloc
  field set the rule returns before it defaults anything.
\<close>

theorem validateAllocationPool_defaults_counterexample:
  "ParseCIDR (Cidr (Options (Spec (withPool ''fd00::/64'' ''fd00::1'' [])))) \<noteq> None
   \<and> End (Pool (Options (Spec (withPool ''fd00::/64'' ''fd00::1'' [])))) = []
   \<and> validateAllocationPool None (withPool ''fd00::/64'' ''fd00::1'' []) Update
       = (Panic, withPool ''fd00::/64'' ''fd00::1'' [])
   \<and> ParseCIDR (Cidr (Options (Spec allocPresetNet))) \<noteq> None
   \<and> Start (Pool (Options (Spec allocPresetNet))) = []
   \<and> End (Pool (Options (Spec allocPresetNet))) = []
   \<and> validateAllocationPool None allocPresetNet Create
       = (Err AllocPresetOnCreateError, allocPresetNet)"
  by code_simp





text \<open>
  Claim C8. The rule is idempotent: run again on the manifest the first run left,
  it leaves the pool bounds as they are and gives the same outcome, whatever the
  first outcome was.
\<close>

theorem validateAllocationPool_idempotent:
  "validateAllocationPool old (snd (validateAllocationPool old m op)) op
     = validateAllocationPool old m op"
proof (cases "op = Create \<and> Alloc (Options (Spec m)) \<noteq> []")
  case True
  then show ?thesis by (simp add: validateAllocationPool_def)
next
  case gate: False
  show ?thesis
  proof (cases "Cidr (Options (Spec m)) = []")
    case True
    then show ?thesis using gate by (auto simp: validateAllocationPool_def)
  next
    case cidr: False
    show ?thesis
    proof (cases "ParseCIDR (Cidr (Options (Spec m)))")
      case None
      then show ?thesis using gate cidr by (auto simp: validateAllocationPool_def)
    next
      case (Some a)
      then obtain ip ipnet where p: "ParseCIDR (Cidr (Options (Spec m))) = Some (ip, ipnet)"
        by (cases a) auto
      note first = validateAllocationPool_parsed [OF gate cidr p, of old]
      have again: "validateAllocationPool old m' op =
        (case (if Start (Pool (Options (Spec m'))) = [] then
                 map_option (\<lambda>v. setPoolStart v m') (poolStartDefault ipnet)
               else Some m') of
           None \<Rightarrow> (Panic, m')
         | Some m1 \<Rightarrow>
             (case (if End (Pool (Options (Spec m1))) = [] then
                      map_option (\<lambda>v. setPoolEnd v m1) (poolEndDefault ipnet)
                    else Some m1) of
                None \<Rightarrow> (Panic, m1)
              | Some m2 \<Rightarrow> (validateAllocationPool_check ipnet m2, m2)))"
        if "Cidr (Options (Spec m')) = Cidr (Options (Spec m))"
          and "Alloc (Options (Spec m')) = Alloc (Options (Spec m))" for m'
        using that gate cidr p by (intro validateAllocationPool_parsed) auto
      show ?thesis
        unfolding first
        by (auto simp: again split: option.splits if_splits
            dest: poolStartDefault_nonempty poolEndDefault_nonempty)
    qed
  qed
qed

text \<open>
  The theorem at the spec's example: the first run defaults the bounds of 10.0.0.0/24
  and succeeds, so the run on the defaulted manifest succeeds and changes nothing;
  and at a manifest whose first run panics, where the second run panics again.
\<close>

theorem validateAllocationPool_idempotent_witness:
  "validateAllocationPool None (withPool ''10.0.0.0/24'' [] []) Create
     = (Ok, withPool ''10.0.0.0/24'' ''10.0.0.1'' ''10.0.0.254'')
   \<and> validateAllocationPool None (withPool ''10.0.0.0/24'' ''10.0.0.1'' ''10.0.0.254'') Create
     = (Ok, withPool ''10.0.0.0/24'' ''10.0.0.1'' ''10.0.0.254'')
   \<and> validateAllocationPool None (withPool ''fd00::/64'' [] []) Update
     = (Panic, withPool ''fd00::/64'' ''0.0.0.1'' [])
   \<and> validateAllocationPool None (withPool ''fd00::/64'' ''0.0.0.1'' []) Update
     = (Panic, withPool ''fd00::/64'' ''0.0.0.1'' [])"
proof -
  have a: "validateAllocationPool None (withPool ''10.0.0.0/24'' [] []) Create
     = (Ok, withPool ''10.0.0.0/24'' ''10.0.0.1'' ''10.0.0.254'')"
    by code_simp
  have b: "validateAllocationPool None (withPool ''fd00::/64'' [] []) Update
     = (Panic, withPool ''fd00::/64'' ''0.0.0.1'' [])"
    by code_simp
  show ?thesis
    using validateAllocationPool_idempotent [of None "withPool ''10.0.0.0/24'' [] []" Create]
      validateAllocationPool_idempotent [of None "withPool ''fd00::/64'' [] []" Update]
    by (simp add: a b)
qed

subsection \<open>Unparsable addresses\<close>

text \<open>
  \<^verbatim>\<open>ParseIP\<close> returns \<^verbatim>\<open>nil\<close> on a string that is not an address, and a parsed subnet
  contains no \<^verbatim>\<open>nil\<close> address: an unparsable route gateway makes the field rule fail
  with \<open>GatewayOutsideCidrError\<close>, and an unparsable pool bound makes the pool rule
  fail with \<open>PoolOutsideCidrError\<close> whenever the rule gets as far as its containment
  check.
\<close>

lemma validateIpFields_unparsable_gateway:
  assumes "cidr \<noteq> []" "ParseCIDR cidr = Some (ip, ipnet)"
    and "gw \<in> set (routeGateways routes)" "ParseIP gw = []"
  shows "\<exists>gw'. validateIpFields cidr routes = Err (GatewayOutsideCidrError gw' cidr)"
proof -
  have "\<not> Contains ipnet (ParseIP gw)"
    using ParseCIDR_not_Contains_nil [OF assms(2)] assms(4) by simp
  then have "validateIpFields_range cidr ipnet (routeEntries routes) \<noteq> Ok"
    using assms(3) by (auto simp: validateIpFields_range_Ok routeGateways_def)
  from validateIpFields_range_Err [OF this] show ?thesis
    using assms(1,2) by (auto simp: validateIpFields_def)
qed

lemma validateAllocationPool_unparsable_bound:
  assumes "\<not> (op = Create \<and> Alloc (Options (Spec m)) \<noteq> [])"
    and "Cidr (Options (Spec m)) \<noteq> []"
    and "ParseCIDR (Cidr (Options (Spec m))) = Some (ip, ipnet)"
    and "End (Pool (Options (Spec m))) \<noteq> [] \<or> length (IP ipnet) = IPv4len"
    and "(Start (Pool (Options (Spec m))) \<noteq> [] \<and> ParseIP (Start (Pool (Options (Spec m)))) = [])
       \<or> (End (Pool (Options (Spec m))) \<noteq> [] \<and> ParseIP (End (Pool (Options (Spec m)))) = [])"
  shows "fst (validateAllocationPool old m op) = Err PoolOutsideCidrError"
proof -
  obtain net where s: "poolStartDefault ipnet = Some (IP_String (Int2ip (net + 1)))"
    using poolStartDefault_parsed [OF assms(3)] by blast
  have "\<exists>v. End (Pool (Options (Spec m))) = [] \<longrightarrow> poolEndDefault ipnet = Some v"
    using assms(4) poolEndDefault_v4 [of ipnet] ParseCIDR_v4_lengths [OF assms(3)]
    by (auto simp: IPv4len_def)
  then obtain v where e: "End (Pool (Options (Spec m))) = [] \<Longrightarrow> poolEndDefault ipnet = Some v"
    by blast
  note nil = ParseCIDR_not_Contains_nil [OF assms(3)]
  show ?thesis
    unfolding validateAllocationPool_parsed [OF assms(1-3), of old]
    using assms(5) e nil
    by (auto simp: s validateAllocationPool_check_def Let_def)
qed

text \<open>
  Claim C10 says that an unparsable pool bound always ends in \<open>PoolOutsideCidrError\<close>,
  never in an unhandled failure. The code does otherwise: past the alloc check, with
  a CIDR that parses to a network that is not a 4-byte one (any CIDR with an IPv6
  address) and an empty end bound, the pool rule returns no error at all, because
  defaulting the end bound panics in \<open>GetBroadcastAddress\<close>, whatever the start bound
  is, an unparsable one included.
\<close>

theorem validateAllocationPool_panics_defaulting_end:
  assumes "\<not> (op = Create \<and> Alloc (Options (Spec m)) \<noteq> [])"
    and "Cidr (Options (Spec m)) \<noteq> []"
    and "ParseCIDR (Cidr (Options (Spec m))) = Some (ip, ipnet)"
    and "length (IP ipnet) \<noteq> IPv4len"
    and "End (Pool (Options (Spec m))) = []"
  shows "fst (validateAllocationPool old m op) = Panic"
  using validateAllocationPool_Panic_iff [OF assms(1-3), of old] assms(4,5) by simp

text \<open>
  The theorem at CIDR fd00::/64 with the unparsable start bound \<open>garbage\<close> and no end
  bound, on Update. The two field rules let the manifest through, so the per-namespace
  rule list ends in the same panic.
\<close>

theorem validateAllocationPool_panics_defaulting_end_witness:
  "\<not> (Update = Create \<and> Alloc (Options (Spec (withPool ''fd00::/64'' ''garbage'' []))) \<noteq> [])
   \<and> Cidr (Options (Spec (withPool ''fd00::/64'' ''garbage'' []))) \<noteq> []
   \<and> ParseCIDR (Cidr (Options (Spec (withPool ''fd00::/64'' ''garbage'' []))))
       = Some (0xfd # replicate 15 0,
           \<lparr>IP = 0xfd # replicate 15 0, Mask = replicate 8 0xff @ replicate 8 0\<rparr>)
   \<and> length (IP \<lparr>IP = 0xfd # replicate 15 0, Mask = replicate 8 0xff @ replicate 8 0\<rparr>) \<noteq> IPv4len
   \<and> End (Pool (Options (Spec (withPool ''fd00::/64'' ''garbage'' [])))) = []
   \<and> Start (Pool (Options (Spec (withPool ''fd00::/64'' ''garbage'' [])))) = ''garbage''
   \<and> ParseIP ''garbage'' = []
   \<and> fst (validateAllocationPool None (withPool ''fd00::/64'' ''garbage'' []) Update) = Panic
   \<and> fst (runRules DanmNetMapping None (withPool ''fd00::/64'' ''garbage'' []) Update) = Panic"
proof -
  let ?m = "withPool ''fd00::/64'' ''garbage'' []"
  let ?n = "\<lparr>IP = 0xfd # replicate 15 0, Mask = replicate 8 0xff @ replicate 8 0\<rparr>"
  have h1: "\<not> (Update = Create \<and> Alloc (Options (Spec ?m)) \<noteq> [])" by simp
  have h2: "Cidr (Options (Spec ?m)) \<noteq> []" by (simp add: ex_defs)
  have h3: "ParseCIDR (Cidr (Options (Spec ?m))) = Some (0xfd # replicate 15 0, ?n)" by code_simp
  have h4: "length (IP ?n) \<noteq> IPv4len" by (simp add: IPv4len_def)
  have h5: "End (Pool (Options (Spec ?m))) = []" by (simp add: ex_defs)
  have s: "Start (Pool (Options (Spec ?m))) = ''garbage''" by (simp add: ex_defs)
  have g: "ParseIP ''garbage'' = []" by code_simp
  have c: "fst (runRules DanmNetMapping None ?m Update) = Panic" by code_simp
  from validateAllocationPool_panics_defaulting_end [OF h1 h2 h3 h4 h5, of None]
  show ?thesis using h1 h2 h3 h4 h5 s g c by blast
qed

section \<open>What the rules change\<close>

text \<open>
  \<open>onlyPoolDefaulted\<close> is reflexive and transitive, every entry of the three rule
  lists satisfies it between the manifest it gets and the manifest it leaves, and so
  does a run of any list of such entries.
\<close>

lemma setPool_same: "setPoolEnd (End (Pool (Options (Spec m)))) (setPoolStart (Start (Pool (Options (Spec m)))) m) = m"
  by (simp add: setPoolEnd_def setPoolStart_def)

lemma setPool_reset:
  "setPoolEnd e (setPoolStart s (setPoolEnd e' m)) = setPoolEnd e (setPoolStart s m)"
  "setPoolEnd e (setPoolStart s (setPoolStart s' m)) = setPoolEnd e (setPoolStart s m)"
  by (simp_all add: setPoolEnd_def setPoolStart_def)

lemma onlyPoolDefaulted_refl: "onlyPoolDefaulted m m"
  by (simp add: onlyPoolDefaulted_def setPool_same)

lemma onlyPoolDefaulted_Cidr: "onlyPoolDefaulted m m' \<Longrightarrow> Cidr (Options (Spec m')) = Cidr (Options (Spec m))"
proof -
  assume "onlyPoolDefaulted m m'"
  then have "setPoolEnd (End (Pool (Options (Spec m)))) (setPoolStart (Start (Pool (Options (Spec m)))) m') = m"
    by (simp add: onlyPoolDefaulted_def)
  then have "Cidr (Options (Spec (setPoolEnd (End (Pool (Options (Spec m)))) (setPoolStart (Start (Pool (Options (Spec m)))) m'))))
      = Cidr (Options (Spec m))" by simp
  then show ?thesis by simp
qed

lemma onlyPoolDefaulted_trans:
  assumes "onlyPoolDefaulted m m1" "onlyPoolDefaulted m1 m2"
  shows "onlyPoolDefaulted m m2"
proof -
  let ?s = "\<lambda>m. Start (Pool (Options (Spec m)))" and ?e = "\<lambda>m. End (Pool (Options (Spec m)))"
  from assms have e1: "setPoolEnd (?e m) (setPoolStart (?s m) m1) = m"
    and e2: "setPoolEnd (?e m1) (setPoolStart (?s m1) m2) = m1"
    by (simp_all add: onlyPoolDefaulted_def)
  have c: "Cidr (Options (Spec m1)) = Cidr (Options (Spec m))"
    using assms(1) by (rule onlyPoolDefaulted_Cidr)
  have "setPoolEnd (?e m) (setPoolStart (?s m) (setPoolEnd (?e m1) (setPoolStart (?s m1) m2))) = m"
    using e1 e2 by simp
  then have eq: "setPoolEnd (?e m) (setPoolStart (?s m) m2) = m"
    by (simp add: setPool_reset)
  have s: "?s m = [] \<and> Cidr (Options (Spec m)) \<noteq> [] \<and> ParseCIDR (Cidr (Options (Spec m))) \<noteq> None"
    if "?s m2 \<noteq> ?s m"
  proof (cases "?s m1 = ?s m")
    case True
    with that have "?s m2 \<noteq> ?s m1" by simp
    with assms(2) have "?s m1 = [] \<and> Cidr (Options (Spec m1)) \<noteq> [] \<and> ParseCIDR (Cidr (Options (Spec m1))) \<noteq> None"
      by (simp add: onlyPoolDefaulted_def)
    with True c show ?thesis by simp
  next
    case False
    with assms(1) show ?thesis by (simp add: onlyPoolDefaulted_def)
  qed
  have e: "?e m = [] \<and> Cidr (Options (Spec m)) \<noteq> [] \<and> ParseCIDR (Cidr (Options (Spec m))) \<noteq> None"
    if "?e m2 \<noteq> ?e m"
  proof (cases "?e m1 = ?e m")
    case True
    with that have "?e m2 \<noteq> ?e m1" by simp
    with assms(2) have "?e m1 = [] \<and> Cidr (Options (Spec m1)) \<noteq> [] \<and> ParseCIDR (Cidr (Options (Spec m1))) \<noteq> None"
      by (simp add: onlyPoolDefaulted_def)
    with True c show ?thesis by simp
  next
    case False
    with assms(1) show ?thesis by (simp add: onlyPoolDefaulted_def)
  qed
  show ?thesis unfolding onlyPoolDefaulted_def using eq s e by blast
qed

lemma setPool_undo:
  "Start (Pool (Options (Spec m))) = s \<Longrightarrow> setPoolStart s m = m"
  "End (Pool (Options (Spec m))) = e \<Longrightarrow> setPoolEnd e m = m"
  "Start (Pool (Options (Spec m))) = s \<Longrightarrow> setPoolStart s (setPoolStart s' m) = m"
  "End (Pool (Options (Spec m))) = e \<Longrightarrow> setPoolEnd e (setPoolEnd e' m) = m"
  "Start (Pool (Options (Spec m))) = s \<Longrightarrow> End (Pool (Options (Spec m))) = e \<Longrightarrow>
     setPoolEnd e (setPoolStart s (setPoolEnd e' (setPoolStart s' m))) = m"
  "Start (Pool (Options (Spec m))) = s \<Longrightarrow> End (Pool (Options (Spec m))) = e \<Longrightarrow>
     setPoolEnd e (setPoolStart s (setPoolEnd e' m)) = m"
  "Start (Pool (Options (Spec m))) = s \<Longrightarrow> End (Pool (Options (Spec m))) = e \<Longrightarrow>
     setPoolEnd e (setPoolStart s (setPoolStart s' m)) = m"
  "Start (Pool (Options (Spec m))) = s \<Longrightarrow> End (Pool (Options (Spec m))) = e \<Longrightarrow>
     setPoolEnd e (setPoolStart s m) = m"
  by (auto simp: setPoolEnd_def setPoolStart_def)

lemma validateAllocationPool_frame:
  "onlyPoolDefaulted m (snd (validateAllocationPool old m op))"
proof (cases "\<not> (op = Create \<and> Alloc (Options (Spec m)) \<noteq> []) \<and> Cidr (Options (Spec m)) \<noteq> []
    \<and> ParseCIDR (Cidr (Options (Spec m))) \<noteq> None")
  case False
  then have "snd (validateAllocationPool old m op) = m"
    by (auto simp: validateAllocationPool_def Let_def split: option.splits)
  then show ?thesis by (simp add: onlyPoolDefaulted_refl)
next
  case True
  then obtain ip ipnet where p: "ParseCIDR (Cidr (Options (Spec m))) = Some (ip, ipnet)" by auto
  from True have g: "\<not> (op = Create \<and> Alloc (Options (Spec m)) \<noteq> [])" and c: "Cidr (Options (Spec m)) \<noteq> []"
    by blast+
  show ?thesis
    unfolding validateAllocationPool_parsed [OF g c p, of old] onlyPoolDefaulted_def
    using c p
    by (auto simp: setPool_undo split: option.splits)
qed

lemma readonly_frame: "snd (readonly f old m op) = m"
  by (simp add: readonly_def)

lemma mapping_members:
  assumes "v \<in> set DanmNetMapping \<union> set ClusterNetMapping \<union> set TenantNetMapping"
  shows "v = validateAllocationPool \<or> (\<exists>f. v = readonly f)"
  using assms by (auto simp: DanmNetMapping_def ClusterNetMapping_def TenantNetMapping_def)

lemma mapping_member_frame:
  assumes "v \<in> set DanmNetMapping \<union> set ClusterNetMapping \<union> set TenantNetMapping"
  shows "onlyPoolDefaulted m (snd (v old m op))"
  using mapping_members [OF assms] validateAllocationPool_frame
  by (auto simp: readonly_frame onlyPoolDefaulted_refl)

lemma runRules_frame:
  assumes "\<And>v m. v \<in> set vs \<Longrightarrow> onlyPoolDefaulted m (snd (v old m op))"
  shows "onlyPoolDefaulted m (snd (runRules vs old m op))"
  using assms
proof (induction vs arbitrary: m)
  case Nil
  show ?case by (simp add: onlyPoolDefaulted_refl)
next
  case (Cons v vs)
  obtain r m1 where v: "v old m op = (r, m1)" by (cases "v old m op") auto
  have f1: "onlyPoolDefaulted m m1" using Cons.prems [of v m] v by simp
  show ?case
  proof (cases "r = Ok")
    case True
    have "onlyPoolDefaulted m1 (snd (runRules vs old m1 op))"
      by (rule Cons.IH) (simp add: Cons.prems)
    with f1 have "onlyPoolDefaulted m (snd (runRules vs old m1 op))"
      by (rule onlyPoolDefaulted_trans)
    then show ?thesis using v True by simp
  next
    case False
    then have "runRules (v # vs) old m op = (r, m1)" using v by (cases r) simp_all
    then show ?thesis using f1 by simp
  qed
qed

lemma runAllRules_frame:
  assumes "\<And>v m. v \<in> set vs \<Longrightarrow> onlyPoolDefaulted m (snd (v old m op))"
  shows "onlyPoolDefaulted m (snd (runAllRules vs old m op))"
  using assms
proof (induction vs arbitrary: m)
  case Nil
  show ?case by (simp add: onlyPoolDefaulted_refl)
next
  case (Cons v vs)
  obtain r m1 where v: "v old m op = (r, m1)" by (cases "v old m op") auto
  have f1: "onlyPoolDefaulted m m1" using Cons.prems [of v m] v by simp
  show ?case
  proof (cases "r = Panic")
    case False
    have "onlyPoolDefaulted m1 (snd (runAllRules vs old m1 op))"
      by (rule Cons.IH) (simp add: Cons.prems)
    with f1 have "onlyPoolDefaulted m (snd (runAllRules vs old m1 op))"
      by (rule onlyPoolDefaulted_trans)
    then show ?thesis using v False
      by (cases r; cases "runAllRules vs old m1 op") simp_all
  next
    case True
    then have "runAllRules (v # vs) old m op = ([Panic], m1)" using v by simp
    then show ?thesis using f1 by simp
  qed
qed

lemma onlyPoolDefaulted_fields:
  assumes "onlyPoolDefaulted m m'"
  shows "NetworkID (Spec m') = NetworkID (Spec m)"
    and "AllowedTenants (Spec m') = AllowedTenants (Spec m)"
    and "Device (Options (Spec m')) = Device (Options (Spec m))"
    and "Vxlan (Options (Spec m')) = Vxlan (Options (Spec m))"
    and "Vlan (Options (Spec m')) = Vlan (Options (Spec m))"
    and "Cidr (Options (Spec m')) = Cidr (Options (Spec m))"
    and "Routes (Options (Spec m')) = Routes (Options (Spec m))"
    and "Alloc (Options (Spec m')) = Alloc (Options (Spec m))"
    and "Net6 (Options (Spec m')) = Net6 (Options (Spec m))"
    and "Routes6 (Options (Spec m')) = Routes6 (Options (Spec m))"
proof -
  let ?r = "setPoolEnd (End (Pool (Options (Spec m)))) (setPoolStart (Start (Pool (Options (Spec m)))) m')"
  have eq: "?r = m" using assms by (simp add: onlyPoolDefaulted_def)
  have r: "NetworkID (Spec ?r) = NetworkID (Spec m')" "AllowedTenants (Spec ?r) = AllowedTenants (Spec m')"
    "Device (Options (Spec ?r)) = Device (Options (Spec m'))"
    "Vxlan (Options (Spec ?r)) = Vxlan (Options (Spec m'))"
    "Vlan (Options (Spec ?r)) = Vlan (Options (Spec m'))"
    "Cidr (Options (Spec ?r)) = Cidr (Options (Spec m'))"
    "Routes (Options (Spec ?r)) = Routes (Options (Spec m'))"
    "Alloc (Options (Spec ?r)) = Alloc (Options (Spec m'))"
    "Net6 (Options (Spec ?r)) = Net6 (Options (Spec m'))"
    "Routes6 (Options (Spec ?r)) = Routes6 (Options (Spec m'))"
    by (simp_all add: setPoolEnd_def setPoolStart_def)
  show "NetworkID (Spec m') = NetworkID (Spec m)" using r(1) unfolding eq by simp
  show "AllowedTenants (Spec m') = AllowedTenants (Spec m)" using r(2) unfolding eq by simp
  show "Device (Options (Spec m')) = Device (Options (Spec m))" using r(3) unfolding eq by simp
  show "Vxlan (Options (Spec m')) = Vxlan (Options (Spec m))" using r(4) unfolding eq by simp
  show "Vlan (Options (Spec m')) = Vlan (Options (Spec m))" using r(5) unfolding eq by simp
  show "Cidr (Options (Spec m')) = Cidr (Options (Spec m))" using r(6) unfolding eq by simp
  show "Routes (Options (Spec m')) = Routes (Options (Spec m))" using r(7) unfolding eq by simp
  show "Alloc (Options (Spec m')) = Alloc (Options (Spec m))" using r(8) unfolding eq by simp
  show "Net6 (Options (Spec m')) = Net6 (Options (Spec m))" using r(9) unfolding eq by simp
  show "Routes6 (Options (Spec m')) = Routes6 (Options (Spec m))" using r(10) unfolding eq by simp
qed

text \<open>
  Claim C7. Every rule of the three rule lists other than the allocation pool rule
  leaves the candidate manifest as it is; the allocation pool rule changes nothing but
  \<open>Pool.Start\<close> and \<open>Pool.End\<close>, each only when it was empty and the CIDR is
  non-empty and parses; and so does a whole rule list, run to the first failure or
  run to the end, whatever the outcomes are. The previous manifest is only read: no
  validator assigns through it, and the embedding passes it by value.
\<close>

theorem validators_modify_only_defaulted_pool:
  "(\<forall>v \<in> set DanmNetMapping \<union> set ClusterNetMapping \<union> set TenantNetMapping.
      v \<noteq> validateAllocationPool \<longrightarrow> snd (v old m op) = m)
   \<and> onlyPoolDefaulted m (snd (validateAllocationPool old m op))
   \<and> (\<forall>rules \<in> {DanmNetMapping, ClusterNetMapping, TenantNetMapping}.
        onlyPoolDefaulted m (snd (runRules rules old m op))
        \<and> onlyPoolDefaulted m (snd (runAllRules rules old m op)))"
proof -
  have a: "snd (v old m op) = m"
    if "v \<in> set DanmNetMapping \<union> set ClusterNetMapping \<union> set TenantNetMapping"
      and "v \<noteq> validateAllocationPool" for v
    using mapping_members [OF that(1)] that(2) by (auto simp: readonly_frame)
  have c: "onlyPoolDefaulted m (snd (runRules rules old m op))
        \<and> onlyPoolDefaulted m (snd (runAllRules rules old m op))"
    if "rules \<in> {DanmNetMapping, ClusterNetMapping, TenantNetMapping}" for rules
  proof -
    have "\<And>v m. v \<in> set rules \<Longrightarrow> onlyPoolDefaulted m (snd (v old m op))"
      using that by (intro mapping_member_frame) auto
    then show ?thesis using runRules_frame [of rules old op m] runAllRules_frame [of rules old op m]
      by blast
  qed
  show ?thesis using a c validateAllocationPool_frame by blast
qed

lemma readonly_validateVids_not_pool: "readonly validateVids \<noteq> validateAllocationPool"
proof
  assume "readonly validateVids = validateAllocationPool"
  then have "readonly validateVids None allocPresetNet Create = validateAllocationPool None allocPresetNet Create"
    by simp
  moreover have "fst (readonly validateVids None allocPresetNet Create) = Ok" by code_simp
  moreover have "fst (validateAllocationPool None allocPresetNet Create) = Err AllocPresetOnCreateError"
    by code_simp
  ultimately show False by simp
qed

text \<open>
  The theorem at the VLAN/VXLAN rule, and at the per-namespace rule list run on
  10.0.0.0/24 with empty bounds: network id, CIDR and VLAN are as before.
\<close>

theorem validators_modify_only_defaulted_pool_witness:
  "readonly validateVids \<in> set DanmNetMapping \<union> set ClusterNetMapping \<union> set TenantNetMapping
   \<and> readonly validateVids \<noteq> validateAllocationPool
   \<and> snd (readonly validateVids None taggedNet Create) = taggedNet
   \<and> DanmNetMapping \<in> {DanmNetMapping, ClusterNetMapping, TenantNetMapping}
   \<and> NetworkID (Spec (snd (runRules DanmNetMapping None (withPool ''10.0.0.0/24'' [] []) Create))) = ''net1''
   \<and> Cidr (Options (Spec (snd (runRules DanmNetMapping None (withPool ''10.0.0.0/24'' [] []) Create))))
       = ''10.0.0.0/24''
   \<and> Vlan (Options (Spec (snd (runAllRules DanmNetMapping None (withPool ''10.0.0.0/24'' [] []) Create)))) = 0"
proof -
  let ?m = "withPool ''10.0.0.0/24'' [] []"
  have h1: "readonly validateVids \<in> set DanmNetMapping \<union> set ClusterNetMapping \<union> set TenantNetMapping"
    by (simp add: DanmNetMapping_def)
  note h2 = readonly_validateVids_not_pool
  have h3: "DanmNetMapping \<in> {DanmNetMapping, ClusterNetMapping, TenantNetMapping}" by simp
  from validators_modify_only_defaulted_pool [of None taggedNet Create] h1 h2
  have c1: "snd (readonly validateVids None taggedNet Create) = taggedNet" by blast
  from validators_modify_only_defaulted_pool [of None ?m Create] h3
  have f: "onlyPoolDefaulted ?m (snd (runRules DanmNetMapping None ?m Create))"
      "onlyPoolDefaulted ?m (snd (runAllRules DanmNetMapping None ?m Create))" by blast+
  have v: "NetworkID (Spec ?m) = ''net1''" "Cidr (Options (Spec ?m)) = ''10.0.0.0/24''"
      "Vlan (Options (Spec ?m)) = 0" by (simp_all add: ex_defs)
  show ?thesis
    using h1 h2 h3 c1 onlyPoolDefaulted_fields(1,6) [OF f(1)] onlyPoolDefaulted_fields(5) [OF f(2)] v
    by simp
qed

section \<open>VLAN/VXLAN exclusivity\<close>

text \<open>
  A rule list that accepts a manifest has run each of its read-only rules on a
  manifest that differs from the candidate in defaulted pool bounds at most, and the
  rule returned \<^verbatim>\<open>nil\<close> there.
\<close>

lemma runRules_Ok_readonly:
  assumes "fst (runRules vs old m op) = Ok" "readonly f \<in> set vs"
    and "\<And>v m. v \<in> set vs \<Longrightarrow> onlyPoolDefaulted m (snd (v old m op))"
  shows "\<exists>m1. onlyPoolDefaulted m m1 \<and> f old m1 op = Ok"
  using assms
proof (induction vs arbitrary: m)
  case Nil
  then show ?case by simp
next
  case (Cons v vs)
  obtain r m1 where v: "v old m op = (r, m1)" by (cases "v old m op") auto
  have r: "r = Ok" using Cons.prems(1) v by (cases r) simp_all
  have rest: "fst (runRules vs old m1 op) = Ok" using Cons.prems(1) v r by simp
  have f1: "onlyPoolDefaulted m m1" using Cons.prems(3) [of v m] v by simp
  show ?case
  proof (cases "readonly f = v")
    case True
    then have "f old m op = Ok" using v r by (auto simp: readonly_def)
    then show ?thesis using onlyPoolDefaulted_refl by blast
  next
    case False
    then have "readonly f \<in> set vs" using Cons.prems(2) by auto
    then obtain m2 where "onlyPoolDefaulted m1 m2" "f old m2 op = Ok"
      using Cons.IH [OF rest] Cons.prems(3) by auto
    then show ?thesis using onlyPoolDefaulted_trans [OF f1] by blast
  qed
qed

lemma mapping_runRules_Ok:
  assumes "rules \<in> {DanmNetMapping, ClusterNetMapping, TenantNetMapping}"
    and "fst (runRules rules old m op) = Ok" and "readonly f \<in> set rules"
  shows "\<exists>m1. onlyPoolDefaulted m m1 \<and> f old m1 op = Ok"
proof -
  have "\<And>v m. v \<in> set rules \<Longrightarrow> onlyPoolDefaulted m (snd (v old m op))"
    using assms(1) by (intro mapping_member_frame) auto
  then show ?thesis using runRules_Ok_readonly [OF assms(2,3)] by blast
qed

lemma danmValidationConfig_simps:
  "danmValidationConfig ''DanmNet'' = Some DanmNetMapping"
  "danmValidationConfig ''ClusterNetwork'' = Some ClusterNetMapping"
  "danmValidationConfig ''TenantNetwork'' = Some TenantNetMapping"
  by (simp_all add: danmValidationConfig_def)

text \<open>
  Claim C5, as the code has it. The exclusivity rule fails with
  \<open>VlanVxlanConflictError\<close> exactly when both tags are nonzero and succeeds
  otherwise. A manifest accepted by the rule list of the kinds \<open>DanmNet\<close> and
  \<open>ClusterNetwork\<close> never has both tags nonzero. The rule list of \<open>TenantNetwork\<close>
  omits the rule: a manifest it accepts on Create has both tags zero, and one it
  accepts on Update has the tags of the previous manifest.
\<close>

theorem vlan_vxlan_exclusive_on_accepted:
  "validateVids old m op =
     (if Vlan (Options (Spec m)) \<noteq> 0 \<and> Vxlan (Options (Spec m)) \<noteq> 0
      then Err VlanVxlanConflictError else Ok)
   \<and> (\<forall>kind rules. (kind = ''DanmNet'' \<or> kind = ''ClusterNetwork'')
         \<and> danmValidationConfig kind = Some rules \<and> fst (runRules rules old m op) = Ok
         \<longrightarrow> \<not> (Vlan (Options (Spec m)) \<noteq> 0 \<and> Vxlan (Options (Spec m)) \<noteq> 0))
   \<and> (\<forall>rules. danmValidationConfig ''TenantNetwork'' = Some rules
         \<and> fst (runRules rules old m Create) = Ok
         \<longrightarrow> Vlan (Options (Spec m)) = 0 \<and> Vxlan (Options (Spec m)) = 0)
   \<and> (\<forall>rules prev. danmValidationConfig ''TenantNetwork'' = Some rules
         \<and> fst (runRules rules (Some prev) m Update) = Ok
         \<longrightarrow> Vlan (Options (Spec m)) = Vlan (Options (Spec prev))
             \<and> Vxlan (Options (Spec m)) = Vxlan (Options (Spec prev)))"
proof -
  have a: "validateVids old m op =
     (if Vlan (Options (Spec m)) \<noteq> 0 \<and> Vxlan (Options (Spec m)) \<noteq> 0
      then Err VlanVxlanConflictError else Ok)"
    by (simp add: validateVids_def Let_def)
  have b: "\<not> (Vlan (Options (Spec m)) \<noteq> 0 \<and> Vxlan (Options (Spec m)) \<noteq> 0)"
    if k: "kind = ''DanmNet'' \<or> kind = ''ClusterNetwork''"
      and c: "danmValidationConfig kind = Some rules"
      and r: "fst (runRules rules old m op) = Ok" for kind rules
  proof -
    have "rules = DanmNetMapping \<or> rules = ClusterNetMapping"
      using k c by (auto simp: danmValidationConfig_simps)
    then have "rules \<in> {DanmNetMapping, ClusterNetMapping, TenantNetMapping}"
        "readonly validateVids \<in> set rules"
      by (auto simp: DanmNetMapping_def ClusterNetMapping_def)
    from mapping_runRules_Ok [OF this(1) r this(2)]
    obtain m1 where m1: "onlyPoolDefaulted m m1" "validateVids old m1 op = Ok" by blast
    then have "\<not> (Vlan (Options (Spec m1)) \<noteq> 0 \<and> Vxlan (Options (Spec m1)) \<noteq> 0)"
      by (auto simp: validateVids_def Let_def split: if_splits)
    then show ?thesis using onlyPoolDefaulted_fields(4,5) [OF m1(1)] by simp
  qed
  have t: "\<exists>m1. onlyPoolDefaulted m m1 \<and> validateTenantNetRules old' m1 op' = Ok"
    if "danmValidationConfig ''TenantNetwork'' = Some rules"
      and r: "fst (runRules rules old' m op') = Ok" for rules old' op'
  proof -
    have "rules = TenantNetMapping" using that(1) by (simp add: danmValidationConfig_simps)
    then have "rules \<in> {DanmNetMapping, ClusterNetMapping, TenantNetMapping}"
        "readonly validateTenantNetRules \<in> set rules"
      by (auto simp: TenantNetMapping_def)
    from mapping_runRules_Ok [OF this(1) r this(2)] show ?thesis .
  qed
  have c: "Vlan (Options (Spec m)) = 0 \<and> Vxlan (Options (Spec m)) = 0"
    if "danmValidationConfig ''TenantNetwork'' = Some rules"
      and "fst (runRules rules old m Create) = Ok" for rules
  proof -
    from t [OF that] obtain m1 where m1: "onlyPoolDefaulted m m1"
        "validateTenantNetRules old m1 Create = Ok" by blast
    then have "Vlan (Options (Spec m1)) = 0 \<and> Vxlan (Options (Spec m1)) = 0"
      by (auto simp: validateTenantNetRules_def split: if_splits)
    then show ?thesis using onlyPoolDefaulted_fields(4,5) [OF m1(1)] by simp
  qed
  have d: "Vlan (Options (Spec m)) = Vlan (Options (Spec prev))
             \<and> Vxlan (Options (Spec m)) = Vxlan (Options (Spec prev))"
    if "danmValidationConfig ''TenantNetwork'' = Some rules"
      and "fst (runRules rules (Some prev) m Update) = Ok" for rules prev
  proof -
    from t [OF that] obtain m1 where m1: "onlyPoolDefaulted m m1"
        "validateTenantNetRules (Some prev) m1 Update = Ok" by blast
    then have "Vlan (Options (Spec m1)) = Vlan (Options (Spec prev))
        \<and> Vxlan (Options (Spec m1)) = Vxlan (Options (Spec prev))"
      by (auto simp: validateTenantNetRules_def split: if_splits)
    then show ?thesis using onlyPoolDefaulted_fields(4,5) [OF m1(1)] by simp
  qed
  show ?thesis using a b c d by blast
qed

text \<open>
  The theorem at the tags 5 and 7 and at the tag 5 alone, which the per-namespace list
  accepts, and at a layer-2 manifest, which the tenant list accepts on Create.
\<close>

theorem vlan_vxlan_exclusive_on_accepted_witness:
  "validateVids None taggedNet Create = Err VlanVxlanConflictError
   \<and> validateVids None (withOptions (\<lambda>opts. opts\<lparr>Vlan := 5\<rparr>) l2Net) Create = Ok
   \<and> danmValidationConfig ''DanmNet'' = Some DanmNetMapping
   \<and> fst (runRules DanmNetMapping None (withOptions (\<lambda>opts. opts\<lparr>Vlan := 5\<rparr>) l2Net) Create) = Ok
   \<and> \<not> (Vlan (Options (Spec (withOptions (\<lambda>opts. opts\<lparr>Vlan := 5\<rparr>) l2Net))) \<noteq> 0
        \<and> Vxlan (Options (Spec (withOptions (\<lambda>opts. opts\<lparr>Vlan := 5\<rparr>) l2Net))) \<noteq> 0)
   \<and> danmValidationConfig ''TenantNetwork'' = Some TenantNetMapping
   \<and> fst (runRules TenantNetMapping None l2Net Create) = Ok
   \<and> Vlan (Options (Spec l2Net)) = 0 \<and> Vxlan (Options (Spec l2Net)) = 0"
proof -
  let ?v = "withOptions (\<lambda>opts. opts\<lparr>Vlan := 5\<rparr>) l2Net"
  have t: "Vlan (Options (Spec taggedNet)) = 5" "Vxlan (Options (Spec taggedNet)) = 7"
      "Vlan (Options (Spec ?v)) = 5" "Vxlan (Options (Spec ?v)) = 0"
    by (simp_all add: ex_defs)
  have k: "danmValidationConfig ''DanmNet'' = Some DanmNetMapping"
      "danmValidationConfig ''TenantNetwork'' = Some TenantNetMapping"
    by (simp_all add: danmValidationConfig_def)
  have r1: "fst (runRules DanmNetMapping None ?v Create) = Ok" by code_simp
  have r2: "fst (runRules TenantNetMapping None l2Net Create) = Ok" by code_simp
  have a: "validateVids None taggedNet Create = Err VlanVxlanConflictError"
    using vlan_vxlan_exclusive_on_accepted [of None taggedNet Create] t by simp
  have b: "validateVids None ?v Create = Ok"
      "\<not> (Vlan (Options (Spec ?v)) \<noteq> 0 \<and> Vxlan (Options (Spec ?v)) \<noteq> 0)"
    using vlan_vxlan_exclusive_on_accepted [of None ?v Create] t k(1) r1 by auto
  have c: "Vlan (Options (Spec l2Net)) = 0 \<and> Vxlan (Options (Spec l2Net)) = 0"
    using vlan_vxlan_exclusive_on_accepted [of None l2Net Create] k(2) r2 by blast
  show ?thesis using a b c k r1 r2 by blast
qed

text \<open>
  Claim C5 as stated covers the tenant-scoped kind. On Update its rule list accepts a
  manifest with VLAN 5 and VXLAN 7 when the previous manifest has the same tags: every
  rule of the list returns \<^verbatim>\<open>nil\<close>.
\<close>

theorem tenant_accepts_vlan_and_vxlan_counterexample:
  "danmValidationConfig ''TenantNetwork'' = Some TenantNetMapping
   \<and> runRules TenantNetMapping (Some taggedNet) taggedNet Update = (Ok, taggedNet)
   \<and> fst (runAllRules TenantNetMapping (Some taggedNet) taggedNet Update) = [Ok, Ok, Ok, Ok, Ok, Ok]
   \<and> list_all (\<lambda>v. fst (v (Some taggedNet) taggedNet Update) = Ok) TenantNetMapping
   \<and> Vlan (Options (Spec taggedNet)) = 5 \<and> Vxlan (Options (Spec taggedNet)) = 7"
proof -
  have "danmValidationConfig ''TenantNetwork'' = Some TenantNetMapping"
    by (simp add: danmValidationConfig_def)
  moreover have "runRules TenantNetMapping (Some taggedNet) taggedNet Update = (Ok, taggedNet)"
    by code_simp
  moreover have "fst (runAllRules TenantNetMapping (Some taggedNet) taggedNet Update) = [Ok, Ok, Ok, Ok, Ok, Ok]"
    by code_simp
  moreover have "list_all (\<lambda>v. fst (v (Some taggedNet) taggedNet Update) = Ok) TenantNetMapping"
    by code_simp
  moreover have "Vlan (Options (Spec taggedNet)) = 5 \<and> Vxlan (Options (Spec taggedNet)) = 7"
    by (simp add: ex_defs)
  ultimately show ?thesis by blast
qed

end
